theory Spec2Isabelle
  imports Complex_Main "HOL-Library.Sublist" "HOL-Library.Multiset"
begin

section \<open>Strings\<close>

text \<open>
  A Python \<open>str\<close> is a sequence of Unicode code points; \<open>len\<close> counts code points.
  A string is modelled as the list of its code points. \<open>str\<close> turns an ASCII literal
  into such a list.
\<close>

type_synonym pystr = "nat list"

abbreviation str :: "string \<Rightarrow> pystr" where
  "str s \<equiv> map of_char s"

text \<open>
  \<open>str.strip()\<close> without argument removes the leading and trailing characters for
  which \<open>str.isspace()\<close> holds. The table is the one of CPython.
\<close>

definition py_isspace :: "nat \<Rightarrow> bool" where
  "py_isspace c \<longleftrightarrow>
     (9 \<le> c \<and> c \<le> 13) \<or> (28 \<le> c \<and> c \<le> 32) \<or> c = 133 \<or> c = 160 \<or> c = 5760 \<or>
     (8192 \<le> c \<and> c \<le> 8202) \<or> c = 8232 \<or> c = 8233 \<or> c = 8239 \<or> c = 8287 \<or> c = 12288"

text \<open>
  The schemas set \<open>str_strip_whitespace\<close>: pydantic trims a string field before it
  checks the length constraints. Its trimming follows the Unicode property White_Space,
  which is the table above without the separators 28 to 31.
\<close>

definition core_isspace :: "nat \<Rightarrow> bool" where
  "core_isspace c \<longleftrightarrow>
     (9 \<le> c \<and> c \<le> 13) \<or> c = 32 \<or> c = 133 \<or> c = 160 \<or> c = 5760 \<or>
     (8192 \<le> c \<and> c \<le> 8202) \<or> c = 8232 \<or> c = 8233 \<or> c = 8239 \<or> c = 8287 \<or> c = 12288"

definition strip_with :: "(nat \<Rightarrow> bool) \<Rightarrow> pystr \<Rightarrow> pystr" where
  "strip_with ws s = rev (dropWhile ws (rev (dropWhile ws s)))"

text \<open>The length of a string in UTF-8, the encoding in which the database receives it.\<close>

definition utf8_len :: "nat \<Rightarrow> nat" where
  "utf8_len c = (if c < 128 then 1 else if c < 2048 then 2 else if c < 65536 then 3 else 4)"

definition utf8_bytes :: "pystr \<Rightarrow> nat" where
  "utf8_bytes s = sum_list (map utf8_len s)"

definition py_strip :: "pystr \<Rightarrow> pystr" where
  "py_strip = strip_with py_isspace"

definition core_strip :: "pystr \<Rightarrow> pystr" where
  "core_strip = strip_with core_isspace"

section \<open>Errors\<close>

text \<open>
  Two kinds of exception carry a validation failure. The schemas raise pydantic's
  \<open>ValidationError\<close>, which lists every offending field with the constraint it broke;
  the same value stands for the answer 422 that the framework gives to a request whose
  body or parameters break a declared constraint. The validators of the ORM model raise
  \<open>ValueError\<close> with one of five messages:
  \<^item> \<open>TitleEmpty\<close>: "Book title cannot be empty"
  \<^item> \<open>TitleTooLong\<close>: "Book title too long (max 255 characters)"
  \<^item> \<open>AuthorEmpty\<close>: "Author name cannot be empty"
  \<^item> \<open>AuthorTooLong\<close>: "Author name too long (max 255 characters)"
  \<^item> \<open>YearRange n\<close>: "Year must be between 1000 and n"
\<close>

text \<open>
  The database driver raises \<open>OverflowError\<close> for an integer parameter outside the
  64-bit range, and the engine fails with \<open>OperationalError\<close> on a LIKE pattern of
  more than 50000 bytes. \<open>HTTPException\<close> carries the status code that a handler of
  main.py answers with.
\<close>

datatype field_name = Title | Author | Year | YearFrom | Page | PageSize | BookId

datatype constraint =
  string_too_short | string_too_long | value_error | greater_than_equal | less_than_equal

datatype message = TitleEmpty | TitleTooLong | AuthorEmpty | AuthorTooLong | YearRange int

datatype error =
  ValidationError "(field_name \<times> constraint) list"
| ValueError message
| OverflowError
| OperationalError
| HTTPException int

section \<open>models.py: the Book model and its validators\<close>

text \<open>
  The columns \<open>title\<close>, \<open>author\<close>, \<open>year\<close> are shared by a transient object (no id
  yet) and a persisted row (with the primary key \<open>id\<close>, here \<open>book_id\<close>).
\<close>

record Columns =
  title :: pystr
  author :: pystr
  year :: "int option"

record Book = Columns +
  book_id :: int

definition validate_title :: "pystr \<Rightarrow> error + pystr" where
  "validate_title t =
     (if t = [] \<or> py_strip t = [] then Inl (ValueError TitleEmpty)
      else if length (py_strip t) > 255 then Inl (ValueError TitleTooLong)
      else Inr (py_strip t))"

definition validate_author :: "pystr \<Rightarrow> error + pystr" where
  "validate_author a =
     (if a = [] \<or> py_strip a = [] then Inl (ValueError AuthorEmpty)
      else if length (py_strip a) > 255 then Inl (ValueError AuthorTooLong)
      else Inr (py_strip a))"

text \<open>\<open>current_year\<close> is \<open>datetime.now().year\<close> at the time of the call.\<close>

definition validate_year :: "int \<Rightarrow> int option \<Rightarrow> error + int option" where
  "validate_year current_year y =
     (case y of
        None \<Rightarrow> Inr None
      | Some v \<Rightarrow>
          if v < 1000 \<or> v > current_year + 2 then Inl (ValueError (YearRange (current_year + 2)))
          else Inr (Some v))"

text \<open>
  An attribute assignment on a Book runs the validator of that attribute and stores what
  the validator returns. One item of the dictionary of an update names the attribute and
  carries the value, which may be \<open>None\<close>.
\<close>

datatype item = TitleItem "pystr option" | AuthorItem "pystr option" | YearItem "int option"

definition set_title :: "pystr \<Rightarrow> 'a Columns_scheme \<Rightarrow> error + 'a Columns_scheme" where
  "set_title t b = (case validate_title t of Inl e \<Rightarrow> Inl e | Inr t' \<Rightarrow> Inr (b\<lparr>title := t'\<rparr>))"

definition set_author :: "pystr \<Rightarrow> 'a Columns_scheme \<Rightarrow> error + 'a Columns_scheme" where
  "set_author a b = (case validate_author a of Inl e \<Rightarrow> Inl e | Inr a' \<Rightarrow> Inr (b\<lparr>author := a'\<rparr>))"

definition set_year :: "int \<Rightarrow> int option \<Rightarrow> 'a Columns_scheme \<Rightarrow> error + 'a Columns_scheme" where
  "set_year current_year y b =
     (case validate_year current_year y of Inl e \<Rightarrow> Inl e | Inr y' \<Rightarrow> Inr (b\<lparr>year := y'\<rparr>))"

text \<open>
  \<open>models.Book(title=..., author=..., year=...)\<close>: the constructor assigns the keyword
  arguments in the order given, each through its validator.
\<close>

definition Book_init :: "int \<Rightarrow> pystr \<Rightarrow> pystr \<Rightarrow> int option \<Rightarrow> error + Columns" where
  "Book_init current_year t a y =
     (case validate_title t of
        Inl e \<Rightarrow> Inl e
      | Inr t' \<Rightarrow>
          (case validate_author a of
             Inl e \<Rightarrow> Inl e
           | Inr a' \<Rightarrow>
               (case validate_year current_year y of
                  Inl e \<Rightarrow> Inl e
                | Inr y' \<Rightarrow> Inr \<lparr>title = t', author = a', year = y'\<rparr>)))"

section \<open>schemas.py\<close>

text \<open>
  \<open>schema_year\<close> is \<open>datetime.now().year\<close> at the time the module was imported: the
  bound \<open>le\<close> of the field \<open>year\<close> is computed once, when the class is defined.
\<close>

record BookCreate =
  bc_title :: pystr
  bc_author :: pystr
  bc_year :: "int option"

text \<open>
  A string field of \<open>BookBase\<close>: trimmed, then \<open>min_length=1\<close> and \<open>max_length=255\<close>,
  then the field validator, which strips again and rejects the empty string.
\<close>

definition BookBase_str :: "field_name \<Rightarrow> pystr \<Rightarrow> (field_name \<times> constraint) list + pystr" where
  "BookBase_str f v =
     (let v1 = core_strip v in
      if length v1 < 1 then Inl [(f, string_too_short)]
      else if length v1 > 255 then Inl [(f, string_too_long)]
      else let v2 = py_strip v1 in
        if v2 = [] then Inl [(f, value_error)] else Inr v2)"

definition schema_year_field :: "int \<Rightarrow> int option \<Rightarrow> (field_name \<times> constraint) list + int option" where
  "schema_year_field schema_year y =
     (case y of
        None \<Rightarrow> Inr None
      | Some v \<Rightarrow>
          if v < 1000 then Inl [(Year, greater_than_equal)]
          else if v > schema_year + 2 then Inl [(Year, less_than_equal)]
          else Inr (Some v))"

definition errors_of :: "(field_name \<times> constraint) list + 'a \<Rightarrow> (field_name \<times> constraint) list" where
  "errors_of r = (case r of Inl es \<Rightarrow> es | Inr _ \<Rightarrow> [])"


text \<open>
  A field of a patch is absent from the request, or present with a value that may be
  null. \<open>BookUpdate\<close> keeps the difference in \<open>model_fields_set\<close>.
\<close>

datatype 'a field = Absent | Present "'a option"

record BookUpdate =
  bu_title :: "pystr field"
  bu_author :: "pystr field"
  bu_year :: "int field"

text \<open>
  A string field of \<open>BookUpdate\<close>: optional, trimmed, \<open>min_length=1\<close>,
  \<open>max_length=255\<close>; the class has no field validator.
\<close>

definition BookUpdate_str :: "field_name \<Rightarrow> pystr field \<Rightarrow> (field_name \<times> constraint) list + pystr field" where
  "BookUpdate_str f v =
     (case v of
        Absent \<Rightarrow> Inr Absent
      | Present None \<Rightarrow> Inr (Present None)
      | Present (Some s) \<Rightarrow>
          (let s1 = core_strip s in
           if length s1 < 1 then Inl [(f, string_too_short)]
           else if length s1 > 255 then Inl [(f, string_too_long)]
           else Inr (Present (Some s1))))"

definition BookUpdate_year :: "int \<Rightarrow> int field \<Rightarrow> (field_name \<times> constraint) list + int field" where
  "BookUpdate_year schema_year v =
     (case v of
        Absent \<Rightarrow> Inr Absent
      | Present y \<Rightarrow>
          (case schema_year_field schema_year y of Inl es \<Rightarrow> Inl es | Inr y' \<Rightarrow> Inr (Present y')))"

definition BookUpdate_validate :: "int \<Rightarrow> BookUpdate \<Rightarrow> error + BookUpdate" where
  "BookUpdate_validate schema_year raw =
     (case (BookUpdate_str Title (bu_title raw), BookUpdate_str Author (bu_author raw),
            BookUpdate_year schema_year (bu_year raw)) of
        (Inr t, Inr a, Inr y) \<Rightarrow> Inr \<lparr>bu_title = t, bu_author = a, bu_year = y\<rparr>
      | (rt, ra, ry) \<Rightarrow> Inl (ValidationError (errors_of rt @ errors_of ra @ errors_of ry)))"

text \<open>\<open>book_update.dict(exclude_unset=True)\<close>: the fields that were set, in field order.\<close>

definition dict_exclude_unset :: "BookUpdate \<Rightarrow> item list" where
  "dict_exclude_unset u =
     (case bu_title u of Absent \<Rightarrow> [] | Present v \<Rightarrow> [TitleItem v]) @
     (case bu_author u of Absent \<Rightarrow> [] | Present v \<Rightarrow> [AuthorItem v]) @
     (case bu_year u of Absent \<Rightarrow> [] | Present v \<Rightarrow> [YearItem v])"

record SearchQuery =
  q_title :: "pystr option"
  q_author :: "pystr option"
  q_year :: "int option"
  year_from :: "int option"
  year_to :: "int option"
  page :: int
  page_size :: int

text \<open>
  \<open>BookResponse.model_validate(db_book)\<close> reads the attributes of the row and
  validates them as \<open>BookBase\<close> does; the id is any integer.
\<close>

definition BookResponse_validate :: "int \<Rightarrow> Book \<Rightarrow> error + Book" where
  "BookResponse_validate schema_year db_book =
     (case (BookBase_str Title (title db_book), BookBase_str Author (author db_book),
            schema_year_field schema_year (year db_book)) of
        (Inr t, Inr a, Inr y) \<Rightarrow> Inr \<lparr>title = t, author = a, year = y, book_id = book_id db_book\<rparr>
      | (rt, ra, ry) \<Rightarrow> Inl (ValidationError (errors_of rt @ errors_of ra @ errors_of ry)))"

text \<open>The constraints of \<open>SearchQuery\<close>: \<open>year_from >= 1000\<close>, \<open>page >= 1\<close>, \<open>1 <= page_size <= 100\<close>.\<close>

definition SearchQuery_ok :: "SearchQuery \<Rightarrow> bool" where
  "SearchQuery_ok q \<longleftrightarrow>
     (case year_from q of None \<Rightarrow> True | Some v \<Rightarrow> v \<ge> 1000) \<and>
     page q \<ge> 1 \<and> page_size q \<ge> 1 \<and> page_size q \<le> 100"

section \<open>The database\<close>

text \<open>
  The table \<open>books\<close> is the list of its rows, in the order of insertion. The engine is
  SQLite (\<open>DATABASE_URL\<close> in database.py), and the column \<open>id\<close> is an integer primary
  key declared without the table option \<open>sqlite_autoincrement\<close>: the column is the
  rowid of the table, and an insert that gives no id takes one more than the largest id
  in the table, or 1 in an empty table. The model covers the tables whose largest id is
  below the largest 64-bit integer.
\<close>

definition next_rowid :: "Book list \<Rightarrow> int" where
  "next_rowid tbl = (case tbl of [] \<Rightarrow> 1 | r # rs \<Rightarrow> fold max (map book_id rs) (book_id r) + 1)"

definition insert_row :: "Columns \<Rightarrow> Book list \<Rightarrow> Book" where
  "insert_row c tbl = \<lparr>title = title c, author = author c, year = year c, book_id = next_rowid tbl\<rparr>"

text \<open>\<open>UPDATE books SET ... WHERE id = ?\<close> and \<open>DELETE FROM books WHERE id = ?\<close>.\<close>

definition update_row :: "Book \<Rightarrow> Book list \<Rightarrow> Book list" where
  "update_row b tbl = map (\<lambda>r. if book_id r = book_id b then b else r) tbl"

definition delete_row :: "int \<Rightarrow> Book list \<Rightarrow> Book list" where
  "delete_row i tbl = filter (\<lambda>r. book_id r \<noteq> i) tbl"

text \<open>
  An integer of the program reaches a statement as a bound parameter. The driver accepts
  the integers of 64 bits and raises \<open>OverflowError\<close> for any other.
\<close>

definition int64 :: "int \<Rightarrow> bool" where
  "int64 n \<longleftrightarrow> - (2 ^ 63) \<le> n \<and> n < 2 ^ 63"

text \<open>
  \<open>ORDER BY id\<close>, \<open>OFFSET\<close> and \<open>LIMIT\<close>. In SQLite a negative offset skips nothing
  and a negative limit is no limit.
\<close>

definition order_by_id :: "Book list \<Rightarrow> Book list" where
  "order_by_id tbl = sort_key book_id tbl"

definition sql_offset :: "int \<Rightarrow> 'a list \<Rightarrow> 'a list" where
  "sql_offset n rs = drop (nat n) rs"

definition sql_limit :: "int \<Rightarrow> 'a list \<Rightarrow> 'a list" where
  "sql_limit n rs = (if n < 0 then rs else take (nat n) rs)"

text \<open>
  A comparison with a NULL year is not true, so a row without year passes no filter on
  the year.
\<close>

definition sql_eq :: "int option \<Rightarrow> int \<Rightarrow> bool" where
  "sql_eq col v = (case col of None \<Rightarrow> False | Some n \<Rightarrow> n = v)"

definition sql_ge :: "int option \<Rightarrow> int \<Rightarrow> bool" where
  "sql_ge col v = (case col of None \<Rightarrow> False | Some n \<Rightarrow> n \<ge> v)"

definition sql_le :: "int option \<Rightarrow> int \<Rightarrow> bool" where
  "sql_le col v = (case col of None \<Rightarrow> False | Some n \<Rightarrow> n \<le> v)"

definition sql_between :: "int option \<Rightarrow> int \<Rightarrow> int \<Rightarrow> bool" where
  "sql_between col lo hi = (case col of None \<Rightarrow> False | Some n \<Rightarrow> lo \<le> n \<and> n \<le> hi)"

text \<open>
  \<open>column.ilike(pattern)\<close> is \<open>lower(column) LIKE lower(pattern)\<close> on SQLite.
  \<open>lower\<close> folds the ASCII letters only. LIKE reads the pattern and the text up to
  their first character NUL. In the pattern the percent sign (37) matches any sequence
  of characters and the underscore (95) matches any one character; every other
  character matches itself, ASCII letters without regard to case. There is no escape
  character unless the statement names one, and these statements name none.
\<close>

definition sql_lower :: "nat \<Rightarrow> nat" where
  "sql_lower c = (if 65 \<le> c \<and> c \<le> 90 then c + 32 else c)"

definition until_nul :: "pystr \<Rightarrow> pystr" where
  "until_nul s = takeWhile (\<lambda>c. c \<noteq> 0) s"

fun sql_like :: "pystr \<Rightarrow> pystr \<Rightarrow> bool" where
  "sql_like [] s = (s = [])"
| "sql_like (p # ps) [] = (p = 37 \<and> sql_like ps [])"
| "sql_like (p # ps) (c # cs) =
     (if p = 37 then sql_like ps (c # cs) \<or> sql_like (p # ps) cs
      else (p = 95 \<or> sql_lower p = sql_lower c) \<and> sql_like ps cs)"

definition ilike :: "pystr \<Rightarrow> pystr \<Rightarrow> bool" where
  "ilike col pattern = sql_like (until_nul (map sql_lower pattern)) (until_nul (map sql_lower col))"

text \<open>
  The filters that \<open>search_books\<close> collects are clauses of the WHERE part, joined by
  AND. A clause carries its bound parameters: the pattern of a LIKE, the numbers of a
  comparison.
\<close>

datatype clause =
  TitleLike pystr | AuthorLike pystr | YearEq int | YearBetween int int | YearGe int | YearLe int

fun clause_holds :: "clause \<Rightarrow> Book \<Rightarrow> bool" where
  "clause_holds (TitleLike p) b = ilike (title b) p"
| "clause_holds (AuthorLike p) b = ilike (author b) p"
| "clause_holds (YearEq y) b = sql_eq (year b) y"
| "clause_holds (YearBetween lo hi) b = sql_between (year b) lo hi"
| "clause_holds (YearGe lo) b = sql_ge (year b) lo"
| "clause_holds (YearLe hi) b = sql_le (year b) hi"

fun clause_binds :: "clause \<Rightarrow> bool" where
  "clause_binds (TitleLike p) = True"
| "clause_binds (AuthorLike p) = True"
| "clause_binds (YearEq y) = int64 y"
| "clause_binds (YearBetween lo hi) = (int64 lo \<and> int64 hi)"
| "clause_binds (YearGe lo) = int64 lo"
| "clause_binds (YearLe hi) = int64 hi"

fun pattern_over_limit :: "clause \<Rightarrow> bool" where
  "pattern_over_limit (TitleLike p) = (utf8_bytes p > 50000)"
| "pattern_over_limit (AuthorLike p) = (utf8_bytes p > 50000)"
| "pattern_over_limit (YearEq y) = False"
| "pattern_over_limit (YearBetween lo hi) = False"
| "pattern_over_limit (YearGe lo) = False"
| "pattern_over_limit (YearLe hi) = False"

text \<open>
  The engine checks the length of a pattern when it evaluates the LIKE on a row, and
  which rows it evaluates a clause on is its own choice: it follows from the plan it
  makes for the statement. The plan is a parameter of the model. \<open>plan stmt tbl\<close> says
  whether the engine, running the statement on the table, evaluates a LIKE whose pattern
  is over the limit; it can do so only if there is such a pattern and the table has a
  row.
\<close>

datatype statement = CountQuery "clause list" | SelectQuery "clause list" int int

fun clauses_of :: "statement \<Rightarrow> clause list" where
  "clauses_of (CountQuery cs) = cs"
| "clauses_of (SelectQuery cs n k) = cs"

definition too_complex :: "(statement \<Rightarrow> Book list \<Rightarrow> bool) \<Rightarrow> statement \<Rightarrow> Book list \<Rightarrow> bool" where
  "too_complex plan stmt tbl \<longleftrightarrow>
     list_ex pattern_over_limit (clauses_of stmt) \<and> tbl \<noteq> [] \<and> plan stmt tbl"

section \<open>The session\<close>

text \<open>
  A \<open>Session\<close> stands between the program and the table. An attribute assigned on a
  loaded object stays in the session until \<open>commit\<close> writes it; the session is made
  with \<open>autoflush=False\<close>, so a query reads the table as it is in the database, and the
  session hands out its own object, with the assignments, for a row it has loaded and
  changed. \<open>get_db\<close> opens a session for each request and closes it afterwards, which
  drops what was not committed.
\<close>

record Session =
  rows :: "Book list"
  dirty :: "Book list"

definition new_session :: "Book list \<Rightarrow> Session" where
  "new_session tbl = \<lparr>rows = tbl, dirty = []\<rparr>"

definition in_session :: "Session \<Rightarrow> Book \<Rightarrow> Book" where
  "in_session s r = (case find (\<lambda>p. book_id p = book_id r) (dirty s) of None \<Rightarrow> r | Some p \<Rightarrow> p)"

definition set_dirty :: "Book \<Rightarrow> Session \<Rightarrow> Session" where
  "set_dirty b s = s\<lparr>dirty := b # filter (\<lambda>p. book_id p \<noteq> book_id b) (dirty s)\<rparr>"

definition flush :: "Session \<Rightarrow> Book list" where
  "flush s = fold update_row (dirty s) (rows s)"

definition commit :: "Session \<Rightarrow> Session" where
  "commit s = \<lparr>rows = flush s, dirty = []\<rparr>"

section \<open>crud.py\<close>

text \<open>
  A function that only reads returns its result; a function that writes returns its
  result together with the session afterwards. An exception is the value \<open>Inl\<close>.
\<close>

definition get_book :: "Session \<Rightarrow> int \<Rightarrow> error + Book option" where
  "get_book db i =
     (if \<not> int64 i then Inl OverflowError
      else Inr (map_option (in_session db) (find (\<lambda>r. book_id r = i) (rows db))))"

definition get_books :: "Session \<Rightarrow> int \<Rightarrow> int \<Rightarrow> error + Book list \<times> int" where
  "get_books db skip limit =
     (let tot = int (length (rows db)) in
      if int64 limit \<and> int64 skip
      then Inr (map (in_session db) (sql_limit limit (sql_offset skip (order_by_id (rows db)))), tot)
      else Inl OverflowError)"

text \<open>
  \<open>create_book\<close>: the constructor of the model validates; \<open>db.commit()\<close> writes the
  pending assignments of the session and inserts the new row. The year of the new row
  has passed \<open>validate_year\<close>, so it is at most two more than a year of the calendar
  and fits the 64 bits.
\<close>

definition create_book :: "int \<Rightarrow> Session \<Rightarrow> BookCreate \<Rightarrow> (error + Book) \<times> Session" where
  "create_book current_year db book =
     (case Book_init current_year (bc_title book) (bc_author book) (bc_year book) of
        Inl e \<Rightarrow> (Inl e, db)
      | Inr c \<Rightarrow>
          (let tbl = flush db; db_book = insert_row c tbl
           in (Inr db_book, \<lparr>rows = tbl @ [db_book], dirty = []\<rparr>)))"

text \<open>
  The loop of \<open>update_book\<close> over the items of the dictionary: an item whose value is
  \<open>None\<close> is skipped, any other is assigned through the validator of its attribute. An
  assignment that the validator accepts changes the object in the session. When a
  validator raises, the loop ends there and the session keeps what was assigned before.
\<close>

fun setattr_items :: "int \<Rightarrow> Session \<Rightarrow> Book \<Rightarrow> item list \<Rightarrow> (error + Book) \<times> Session" where
  "setattr_items current_year db db_book [] = (Inr db_book, db)"
| "setattr_items current_year db db_book (TitleItem None # items) =
     setattr_items current_year db db_book items"
| "setattr_items current_year db db_book (AuthorItem None # items) =
     setattr_items current_year db db_book items"
| "setattr_items current_year db db_book (YearItem None # items) =
     setattr_items current_year db db_book items"
| "setattr_items current_year db db_book (TitleItem (Some v) # items) =
     (case set_title v db_book of
        Inl e \<Rightarrow> (Inl e, db)
      | Inr b \<Rightarrow> setattr_items current_year (set_dirty b db) b items)"
| "setattr_items current_year db db_book (AuthorItem (Some v) # items) =
     (case set_author v db_book of
        Inl e \<Rightarrow> (Inl e, db)
      | Inr b \<Rightarrow> setattr_items current_year (set_dirty b db) b items)"
| "setattr_items current_year db db_book (YearItem (Some v) # items) =
     (case set_year current_year (Some v) db_book of
        Inl e \<Rightarrow> (Inl e, db)
      | Inr b \<Rightarrow> setattr_items current_year (set_dirty b db) b items)"

definition update_book ::
  "int \<Rightarrow> Session \<Rightarrow> int \<Rightarrow> BookUpdate \<Rightarrow> (error + Book option) \<times> Session" where
  "update_book current_year db i book_update =
     (case get_book db i of
        Inl e \<Rightarrow> (Inl e, db)
      | Inr None \<Rightarrow> (Inr None, db)
      | Inr (Some db_book) \<Rightarrow>
          (case setattr_items current_year db db_book (dict_exclude_unset book_update) of
             (Inl e, db') \<Rightarrow> (Inl e, db')
           | (Inr b, db') \<Rightarrow> (Inr (Some b), commit db')))"

definition delete_book :: "Session \<Rightarrow> int \<Rightarrow> (error + bool) \<times> Session" where
  "delete_book db i =
     (case get_book db i of
        Inl e \<Rightarrow> (Inl e, db)
      | Inr None \<Rightarrow> (Inr False, db)
      | Inr (Some db_book) \<Rightarrow>
          (Inr True, \<lparr>rows = delete_row (book_id db_book) (flush db), dirty = []\<rparr>))"

text \<open>
  The filters of \<open>search_books\<close>. Each test \<open>if search_query.x:\<close> is a truth test:
  \<open>None\<close>, the empty string and the number 0 are all false.
\<close>

definition truthy_str :: "pystr option \<Rightarrow> pystr option" where
  "truthy_str v = (case v of None \<Rightarrow> None | Some s \<Rightarrow> if s = [] then None else Some s)"

definition truthy_int :: "int option \<Rightarrow> int option" where
  "truthy_int v = (case v of None \<Rightarrow> None | Some n \<Rightarrow> if n = 0 then None else Some n)"

definition title_filters :: "SearchQuery \<Rightarrow> clause list" where
  "title_filters q =
     (case truthy_str (q_title q) of None \<Rightarrow> [] | Some t \<Rightarrow> [TitleLike ([37] @ t @ [37])])"

definition author_filters :: "SearchQuery \<Rightarrow> clause list" where
  "author_filters q =
     (case truthy_str (q_author q) of None \<Rightarrow> [] | Some a \<Rightarrow> [AuthorLike ([37] @ a @ [37])])"

definition year_filters :: "SearchQuery \<Rightarrow> clause list" where
  "year_filters q = (case truthy_int (q_year q) of None \<Rightarrow> [] | Some y \<Rightarrow> [YearEq y])"

definition range_filters :: "SearchQuery \<Rightarrow> clause list" where
  "range_filters q =
     (case (truthy_int (year_from q), truthy_int (year_to q)) of
        (Some lo, Some hi) \<Rightarrow> [YearBetween lo hi]
      | (Some lo, None) \<Rightarrow> [YearGe lo]
      | (None, Some hi) \<Rightarrow> [YearLe hi]
      | (None, None) \<Rightarrow> [])"

definition search_filters :: "SearchQuery \<Rightarrow> clause list" where
  "search_filters q = title_filters q @ author_filters q @ year_filters q @ range_filters q"

text \<open>The predicate of the query: the conjunction of the filters.\<close>

definition matches :: "SearchQuery \<Rightarrow> Book \<Rightarrow> bool" where
  "matches q b = list_all (\<lambda>c. clause_holds c b) (search_filters q)"

text \<open>
  \<open>search_books\<close> runs two statements: the count of the rows that match, then the
  page of them. Each binds the parameters of the filters; the second binds the limit
  and the offset as well.
\<close>

definition search_books ::
  "(statement \<Rightarrow> Book list \<Rightarrow> bool) \<Rightarrow> Session \<Rightarrow> SearchQuery \<Rightarrow> error + Book list \<times> int" where
  "search_books plan db q =
     (let filters = search_filters q;
          query = filter (matches q) (rows db);
          tot = int (length query);
          skip = (page q - 1) * page_size q
      in if list_all clause_binds filters then
           if too_complex plan (CountQuery filters) (rows db) then Inl OperationalError
           else if int64 (page_size q) \<and> int64 skip then
             if too_complex plan (SelectQuery filters (page_size q) skip) (rows db)
             then Inl OperationalError
             else Inr (map (in_session db)
                         (sql_limit (page_size q) (sql_offset skip (order_by_id query))),
                       tot)
           else Inl OverflowError
         else Inl OverflowError)"

section \<open>main.py\<close>

text \<open>
  Python's \<open>//\<close> on integers rounds towards minus infinity, as \<open>div\<close> does. Both
  listing handlers declare \<open>page >= 1\<close> and \<open>1 <= page_size <= 100\<close> on their
  parameters, so the division is never by zero.
\<close>

definition get_books_total_pages :: "int \<Rightarrow> int \<Rightarrow> int" where
  "get_books_total_pages tot pg_size = (tot + pg_size - 1) div pg_size"

definition search_books_total_pages :: "int \<Rightarrow> int \<Rightarrow> int" where
  "search_books_total_pages tot pg_size =
     (if tot > 0 then (tot + pg_size - 1) div pg_size else 0)"

record BooksResponse =
  r_books :: "Book list"
  r_total :: int
  r_page :: int
  r_page_size :: int
  r_total_pages :: int

text \<open>
  The list comprehension \<open>[BookResponse.model_validate(book) for book in books]\<close>: the
  first book that does not validate raises.
\<close>

fun response_books :: "int \<Rightarrow> Book list \<Rightarrow> error + Book list" where
  "response_books schema_year [] = Inr []"
| "response_books schema_year (b # bs) =
     (case BookResponse_validate schema_year b of
        Inl e \<Rightarrow> Inl e
      | Inr r \<Rightarrow> (case response_books schema_year bs of Inl e \<Rightarrow> Inl e | Inr rs \<Rightarrow> Inr (r # rs)))"

text \<open>
  A handler runs on the table through a session of its own, after the framework has
  checked the constraints declared on the parameters and the body (answer 422). The two
  listing handlers turn every exception of their body into the answer 500.
\<close>

definition main_get_books :: "int \<Rightarrow> Book list \<Rightarrow> int \<Rightarrow> int \<Rightarrow> error + BooksResponse" where
  "main_get_books schema_year tbl pg pg_size =
     (let errs = (if pg < 1 then [(Page, greater_than_equal)] else []) @
                 (if pg_size < 1 then [(PageSize, greater_than_equal)]
                  else if pg_size > 100 then [(PageSize, less_than_equal)] else [])
      in if errs \<noteq> [] then Inl (ValidationError errs)
         else (let skip = (pg - 1) * pg_size in
               case get_books (new_session tbl) skip pg_size of
                 Inl e \<Rightarrow> Inl (HTTPException 500)
               | Inr (bs, tot) \<Rightarrow>
                   (let tot_pages = get_books_total_pages tot pg_size in
                    case response_books schema_year bs of
                      Inl e \<Rightarrow> Inl (HTTPException 500)
                    | Inr rs \<Rightarrow>
                        Inr \<lparr>r_books = rs, r_total = tot, r_page = pg, r_page_size = pg_size,
                             r_total_pages = tot_pages\<rparr>)))"

definition search_request_errors :: "SearchQuery \<Rightarrow> (field_name \<times> constraint) list" where
  "search_request_errors q =
     (case q_year q of None \<Rightarrow> [] | Some y \<Rightarrow> if y < 1000 then [(Year, greater_than_equal)] else []) @
     (case year_from q of
        None \<Rightarrow> [] | Some y \<Rightarrow> if y < 1000 then [(YearFrom, greater_than_equal)] else []) @
     (if page q < 1 then [(Page, greater_than_equal)] else []) @
     (if page_size q < 1 then [(PageSize, greater_than_equal)]
      else if page_size q > 100 then [(PageSize, less_than_equal)] else [])"

definition main_search_books ::
  "(statement \<Rightarrow> Book list \<Rightarrow> bool) \<Rightarrow> int \<Rightarrow> Book list \<Rightarrow> SearchQuery \<Rightarrow> error + BooksResponse" where
  "main_search_books plan schema_year tbl q =
     (if search_request_errors q \<noteq> [] then Inl (ValidationError (search_request_errors q))
      else (case search_books plan (new_session tbl) q of
              Inl e \<Rightarrow> Inl (HTTPException 500)
            | Inr (bs, tot) \<Rightarrow>
                (let tot_pages = search_books_total_pages tot (page_size q) in
                 case response_books schema_year bs of
                   Inl e \<Rightarrow> Inl (HTTPException 500)
                 | Inr rs \<Rightarrow>
                     Inr \<lparr>r_books = rs, r_total = tot, r_page = page q, r_page_size = page_size q,
                          r_total_pages = tot_pages\<rparr>)))"


text \<open>
  In \<open>update_book\<close> the answer 404 for a missing book is raised inside the \<open>try\<close>
  block, where \<open>except Exception\<close> catches it: the answer is 500.
\<close>

definition update_request_errors :: "int \<Rightarrow> int \<Rightarrow> BookUpdate \<Rightarrow> (field_name \<times> constraint) list" where
  "update_request_errors schema_year i raw =
     (if i < 1 then [(BookId, greater_than_equal)] else []) @
     (case BookUpdate_validate schema_year raw of Inl (ValidationError es) \<Rightarrow> es | _ \<Rightarrow> [])"

definition main_update_book ::
  "int \<Rightarrow> int \<Rightarrow> Book list \<Rightarrow> int \<Rightarrow> BookUpdate \<Rightarrow> (error + Book) \<times> Book list" where
  "main_update_book schema_year current_year tbl i raw =
     (if update_request_errors schema_year i raw \<noteq> []
      then (Inl (ValidationError (update_request_errors schema_year i raw)), tbl)
      else (case BookUpdate_validate schema_year raw of
              Inl e \<Rightarrow> (Inl e, tbl)
            | Inr book_update \<Rightarrow>
                (case update_book current_year (new_session tbl) i book_update of
                   (Inl (ValueError m), db) \<Rightarrow> (Inl (HTTPException 400), rows db)
                 | (Inl e, db) \<Rightarrow> (Inl (HTTPException 500), rows db)
                 | (Inr None, db) \<Rightarrow> (Inl (HTTPException 500), rows db)
                 | (Inr (Some db_book), db) \<Rightarrow>
                     (case BookResponse_validate schema_year db_book of
                        Inl e \<Rightarrow> (Inl (HTTPException 400), rows db)
                      | Inr r \<Rightarrow> (Inr r, rows db)))))"

section \<open>Sequences of operations\<close>

text \<open>
  A client that creates and deletes books, each in a request of its own. \<open>run\<close>
  performs the operations one after the other and returns the ids that the creations
  were given, in order, with the table at the end.
\<close>

datatype op = Create BookCreate | Delete int

fun run :: "int \<Rightarrow> op list \<Rightarrow> Book list \<Rightarrow> int list \<times> Book list" where
  "run current_year [] tbl = ([], tbl)"
| "run current_year (Create book # ops) tbl =
     (case create_book current_year (new_session tbl) book of
        (Inl e, db) \<Rightarrow> run current_year ops (rows db)
      | (Inr db_book, db) \<Rightarrow>
          (let (ids, tbl') = run current_year ops (rows db) in (book_id db_book # ids, tbl')))"
| "run current_year (Delete i # ops) tbl =
     run current_year ops (rows (snd (delete_book (new_session tbl) i)))"


section \<open>The rules of the specification\<close>



text \<open>
  A substring match without regard to case, in the words of the specification: the
  criterion occurs in the stored text as a contiguous run, both folded to lower case.
\<close>

definition spec_contains :: "pystr \<Rightarrow> pystr \<Rightarrow> bool" where
  "spec_contains criterion text = sublist (map sql_lower criterion) (map sql_lower text)"

section \<open>Rows and queries that raise nothing\<close>

text \<open>
  A row that \<open>BookResponse\<close> accepts, and a search whose statements run: every
  number of a filter fits the 64 bits and no pattern is over the limit of LIKE.
\<close>

definition response_ok :: "int \<Rightarrow> Book \<Rightarrow> bool" where
  "response_ok schema_year b \<longleftrightarrow> \<not> isl (BookResponse_validate schema_year b)"

definition filters_run :: "SearchQuery \<Rightarrow> bool" where
  "filters_run q \<longleftrightarrow>
     list_all clause_binds (search_filters q) \<and> \<not> list_ex pattern_over_limit (search_filters q)"

section \<open>Patches\<close>

text \<open>
  A patch is rejected by \<open>update_book\<close> when a validator of the model raises on one
  of its values that is not \<open>None\<close>.
\<close>

definition rejected :: "int \<Rightarrow> BookUpdate \<Rightarrow> bool" where
  "rejected current_year u \<longleftrightarrow>
     (case bu_title u of Present (Some t) \<Rightarrow> isl (validate_title t) | _ \<Rightarrow> False) \<or>
     (case bu_author u of Present (Some a) \<Rightarrow> isl (validate_author a) | _ \<Rightarrow> False) \<or>
     (case bu_year u of Present (Some y) \<Rightarrow> isl (validate_year current_year (Some y)) | _ \<Rightarrow> False)"

text \<open>
  What the assignments of an accepted patch make of a book, and whether the patch
  assigns anything at all.
\<close>

definition patched :: "Book \<Rightarrow> BookUpdate \<Rightarrow> Book" where
  "patched b u =
     b\<lparr>title := (case bu_title u of Present (Some t) \<Rightarrow> py_strip t | _ \<Rightarrow> title b),
       author := (case bu_author u of Present (Some a) \<Rightarrow> py_strip a | _ \<Rightarrow> author b),
       year := (case bu_year u of Present (Some y) \<Rightarrow> Some y | _ \<Rightarrow> year b)\<rparr>"

definition assigns :: "BookUpdate \<Rightarrow> bool" where
  "assigns u \<longleftrightarrow>
     (case bu_title u of Present (Some t) \<Rightarrow> True | _ \<Rightarrow> False) \<or>
     (case bu_author u of Present (Some a) \<Rightarrow> True | _ \<Rightarrow> False) \<or>
     (case bu_year u of Present (Some y) \<Rightarrow> True | _ \<Rightarrow> False)"

text \<open>The patch that supplies the author and nothing else.\<close>

definition author_only :: "pystr option \<Rightarrow> BookUpdate" where
  "author_only v = \<lparr>bu_title = Absent, bu_author = Present v, bu_year = Absent\<rparr>"

section \<open>Example data\<close>

definition war_and_peace :: Book where
  "war_and_peace =
     \<lparr>title = str ''War and Peace'', author = str ''Leo Tolstoy'', year = Some 1869, book_id = 1\<rparr>"

definition anna_karenina :: Book where
  "anna_karenina =
     \<lparr>title = str ''Anna Karenina'', author = str ''Leo Tolstoy'', year = Some 1877, book_id = 2\<rparr>"

definition no_criteria :: SearchQuery where
  "no_criteria =
     \<lparr>q_title = None, q_author = None, q_year = None, year_from = None, year_to = None,
      page = 1, page_size = 10\<rparr>"

text \<open>The plan of an engine that evaluates every clause on every row.\<close>

definition full_scan :: "statement \<Rightarrow> Book list \<Rightarrow> bool" where
  "full_scan stmt tbl = True"

definition no_change :: BookUpdate where
  "no_change = \<lparr>bu_title = Absent, bu_author = Absent, bu_year = Absent\<rparr>"


text \<open>The row that \<open>some_book\<close> becomes under the id \<open>i\<close>, and a table of such rows.\<close>

definition some_row :: "int \<Rightarrow> Book" where
  "some_row i = \<lparr>title = [84], author = [65], year = None, book_id = i\<rparr>"

definition some_rows :: "nat \<Rightarrow> Book list" where
  "some_rows n = map (\<lambda>k. some_row (int k + 1)) [0..<n]"

section \<open>Trimming\<close>














lemma div_round_up_ceiling:
  fixes t ps :: int
  assumes "0 < ps"
  shows "(t + ps - 1) div ps = \<lceil>real_of_int t / real_of_int ps\<rceil>"
proof -
  define q where "q = (t + ps - 1) div ps"
  have split: "ps * q + (t + ps - 1) mod ps = t + ps - 1"
    unfolding q_def by (rule mult_div_mod_eq)
  have m0: "0 \<le> (t + ps - 1) mod ps" using assms by (rule pos_mod_sign)
  have m1: "(t + ps - 1) mod ps < ps" using assms by (rule pos_mod_bound)
  have lo: "ps * q \<le> t + ps - 1" using split m0 by linarith
  have hi: "t + ps - 1 < ps * q + ps" using split m1 by linarith
  from lo have a: "(q - 1) * ps < t" by (simp add: algebra_simps)
  from hi have b: "t \<le> q * ps" by (simp add: algebra_simps)
  have ps: "0 < real_of_int ps" using assms by simp
  from a have "real_of_int ((q - 1) * ps) < real_of_int t" by linarith
  then have a': "real_of_int q - 1 < real_of_int t / real_of_int ps"
    using ps by (simp add: field_simps)
  from b have "real_of_int t \<le> real_of_int (q * ps)" by linarith
  then have b': "real_of_int t / real_of_int ps \<le> real_of_int q"
    using ps by (simp add: field_simps)
  have "\<lceil>real_of_int t / real_of_int ps\<rceil> = q"
    using a' b' by (intro ceiling_unique) auto
  then show ?thesis by (simp add: q_def)
qed



section \<open>Listing\<close>

lemma in_new_session: "in_session (new_session tbl) r = r"
  by (simp add: in_session_def new_session_def)

lemma map_in_new_session: "map (in_session (new_session tbl)) bs = bs"
  by (induction bs) (simp_all add: in_new_session)

lemma get_books_in_range:
  "int64 skip \<Longrightarrow> int64 limit \<Longrightarrow>
   get_books (new_session tbl) skip limit =
     Inr (sql_limit limit (sql_offset skip (order_by_id tbl)), int (length tbl))"
  by (simp add: get_books_def map_in_new_session) (simp add: new_session_def)

lemma get_books_out_of_range:
  "\<not> int64 skip \<or> \<not> int64 limit \<Longrightarrow> get_books db skip limit = Inl OverflowError"
  by (auto simp: get_books_def)

text \<open>
  Claim C9, as amended. For \<open>skip\<close> and \<open>limit\<close> from 0 to \<open>2^63 - 1\<close>,
  \<open>get_books\<close> returns the rows in ascending order of id, without the first \<open>skip\<close>
  and cut after \<open>limit\<close>, and the count of all rows of the table; with \<open>limit = 0\<close>
  the list is empty and the count is still that of the table. For a \<open>skip\<close> or a
  \<open>limit\<close> of \<open>2^63\<close> or more the driver raises \<open>OverflowError\<close> and
  \<open>get_books\<close> returns nothing.
\<close>

theorem get_books_window:
  assumes "0 \<le> skip" and "0 \<le> limit"
  shows "(skip < 2 ^ 63 \<and> limit < 2 ^ 63 \<longrightarrow>
           (\<exists>items. get_books (new_session tbl) skip limit = Inr (items, int (length tbl)) \<and>
              (\<exists>ordered. mset ordered = mset tbl \<and> sorted (map book_id ordered) \<and>
                 items = take (nat limit) (drop (nat skip) ordered)) \<and>
              sorted (map book_id items) \<and>
              length items = min (nat limit) (length tbl - nat skip) \<and>
              (limit = 0 \<longrightarrow> items = []))) \<and>
         (\<not> (skip < 2 ^ 63 \<and> limit < 2 ^ 63) \<longrightarrow>
           get_books (new_session tbl) skip limit = Inl OverflowError)"
proof (intro conjI impI)
  assume small: "skip < 2 ^ 63 \<and> limit < 2 ^ 63"
  define items where "items = take (nat limit) (drop (nat skip) (sort_key book_id tbl))"
  have "int64 skip" and "int64 limit" using assms small by (simp_all add: int64_def)
  then have "get_books (new_session tbl) skip limit =
      Inr (sql_limit limit (sql_offset skip (order_by_id tbl)), int (length tbl))"
    by (rule get_books_in_range)
  then have res: "get_books (new_session tbl) skip limit = Inr (items, int (length tbl))"
    using assms by (simp add: items_def sql_limit_def sql_offset_def order_by_id_def)
  have s: "sorted (map book_id (sort_key book_id tbl))" by simp
  have sorted_items: "sorted (map book_id items)"
    unfolding items_def take_map[symmetric] drop_map[symmetric]
    by (intro sorted_wrt_take sorted_wrt_drop s)
  have "mset (sort_key book_id tbl) = mset tbl" by simp
  with s have ordered: "\<exists>ordered. mset ordered = mset tbl \<and> sorted (map book_id ordered) \<and>
      items = take (nat limit) (drop (nat skip) ordered)"
    unfolding items_def by blast
  have len: "length items = min (nat limit) (length tbl - nat skip)"
    by (simp add: items_def min.commute)
  have zero: "limit = 0 \<longrightarrow> items = []" by (simp add: items_def)
  show "\<exists>items. get_books (new_session tbl) skip limit = Inr (items, int (length tbl)) \<and>
      (\<exists>ordered. mset ordered = mset tbl \<and> sorted (map book_id ordered) \<and>
         items = take (nat limit) (drop (nat skip) ordered)) \<and>
      sorted (map book_id items) \<and>
      length items = min (nat limit) (length tbl - nat skip) \<and>
      (limit = 0 \<longrightarrow> items = [])"
    using res ordered sorted_items len zero by blast
next
  assume "\<not> (skip < 2 ^ 63 \<and> limit < 2 ^ 63)"
  then have "\<not> int64 skip \<or> \<not> int64 limit" by (auto simp: int64_def)
  then show "get_books (new_session tbl) skip limit = Inl OverflowError"
    by (rule get_books_out_of_range)
qed

text \<open>
  The claim as written, for every non-negative \<open>skip\<close>, fails at \<open>skip = 2^63\<close>:
  the call raises.
\<close>

theorem get_books_overflow_counterexample:
  "get_books (new_session [war_and_peace, anna_karenina]) (2 ^ 63) 1 = Inl OverflowError"
  by (simp add: get_books_def int64_def)

theorem get_books_window_witness:
  "(0::int) \<le> 1 \<and> (1::int) < 2 ^ 63 \<and>
   get_books (new_session [anna_karenina, war_and_peace]) 1 1 = Inr ([anna_karenina], 2) \<and>
   get_books (new_session [anna_karenina, war_and_peace]) 0 0 = Inr ([], 2) \<and>
   \<not> ((2::int) ^ 63 < 2 ^ 63) \<and>
   get_books (new_session [anna_karenina, war_and_peace]) (2 ^ 63) 1 = Inl OverflowError"
proof -
  have a: "get_books (new_session [anna_karenina, war_and_peace]) 1 1 = Inr ([anna_karenina], 2)"
    by (simp add: get_books_in_range int64_def sql_limit_def sql_offset_def order_by_id_def
        anna_karenina_def war_and_peace_def)
  have b: "get_books (new_session [anna_karenina, war_and_peace]) 0 0 = Inr ([], 2)"
    by (simp add: get_books_in_range int64_def sql_limit_def)
  have c: "get_books (new_session [anna_karenina, war_and_peace]) (2 ^ 63) 1 = Inl OverflowError"
    using get_books_window[of "2 ^ 63" 1 "[anna_karenina, war_and_peace]"] by simp
  show ?thesis using a b c by simp
qed

text \<open>
  The handler reaches the overflow with a large page number, and answers 500.
\<close>

lemma main_get_books_overflow:
  "main_get_books sy tbl (10 ^ 18) 100 = Inl (HTTPException 500)"
  by (simp add: main_get_books_def get_books_def int64_def)

section \<open>Pagination\<close>

lemma response_books_ok:
  "list_all (response_ok sy) bs \<Longrightarrow> \<exists>rs. response_books sy bs = Inr rs"
proof (induction bs)
  case Nil
  show ?case by simp
next
  case (Cons b bs)
  then obtain rs where "response_books sy bs = Inr rs" by auto
  moreover from Cons.prems obtain r where "BookResponse_validate sy b = Inr r"
    by (cases "BookResponse_validate sy b") (auto simp: response_ok_def)
  ultimately show ?case by simp
qed

lemma list_all_window:
  "list_all P tbl \<Longrightarrow> list_all P (sql_limit n (sql_offset k (order_by_id (filter Q tbl))))"
  by (auto simp: list_all_iff sql_limit_def sql_offset_def order_by_id_def
      dest!: in_set_takeD in_set_dropD)

lemma main_get_books_answer:
  assumes "main_get_books sy tbl pg pg_size = Inr r"
  shows "r_total r = int (length tbl) \<and>
         r_total_pages r = get_books_total_pages (int (length tbl)) pg_size \<and>
         1 \<le> pg_size \<and> pg_size \<le> 100"
  using assms
  by (auto simp: main_get_books_def get_books_def Let_def new_session_def
      split: if_splits sum.splits)

lemma main_search_books_answer:
  assumes "main_search_books plan sy tbl q = Inr r"
  shows "r_total r = int (length (filter (matches q) tbl)) \<and>
         r_total_pages r =
           search_books_total_pages (int (length (filter (matches q) tbl))) (page_size q) \<and>
         1 \<le> page_size q \<and> page_size q \<le> 100"
  using assms
  by (auto simp: main_search_books_def search_books_def search_request_errors_def Let_def
      new_session_def split: if_splits sum.splits option.splits)

lemma main_get_books_answers:
  assumes "1 \<le> pg" and "1 \<le> pg_size" and "pg_size \<le> 100" and "(pg - 1) * pg_size < 2 ^ 63"
    and "list_all (response_ok sy) tbl"
  shows "\<exists>r. main_get_books sy tbl pg pg_size = Inr r"
proof -
  have "0 \<le> (pg - 1) * pg_size" using assms(1,2) by simp
  then have skip: "int64 ((pg - 1) * pg_size)" using assms(4) by (simp add: int64_def)
  have size: "int64 pg_size" using assms(2,3) by (simp add: int64_def)
  have "list_all (response_ok sy)
      (sql_limit pg_size (sql_offset ((pg - 1) * pg_size) (order_by_id (filter (\<lambda>b. True) tbl))))"
    using assms(5) by (rule list_all_window)
  then obtain rs where "response_books sy
      (sql_limit pg_size (sql_offset ((pg - 1) * pg_size) (order_by_id tbl))) = Inr rs"
    using response_books_ok by fastforce
  then show ?thesis
    using assms(1-3) by (simp add: main_get_books_def get_books_in_range[OF skip size])
qed

lemma main_search_books_answers:
  assumes "search_request_errors q = []" and "filters_run q"
    and "(page q - 1) * page_size q < 2 ^ 63" and "list_all (response_ok sy) tbl"
  shows "\<exists>r. main_search_books plan sy tbl q = Inr r"
proof -
  from assms(1) have pg: "1 \<le> page q" and ps: "1 \<le> page_size q" "page_size q \<le> 100"
    by (auto simp: search_request_errors_def split: if_splits)
  have "0 \<le> (page q - 1) * page_size q" using pg ps by simp
  then have skip: "int64 ((page q - 1) * page_size q)" using assms(3) by (simp add: int64_def)
  have size: "int64 (page_size q)" using ps by (simp add: int64_def)
  have "list_all (response_ok sy)
      (sql_limit (page_size q) (sql_offset ((page q - 1) * page_size q)
        (order_by_id (filter (matches q) tbl))))"
    using assms(4) by (rule list_all_window)
  then obtain rs where "response_books sy
      (sql_limit (page_size q) (sql_offset ((page q - 1) * page_size q)
        (order_by_id (filter (matches q) tbl)))) = Inr rs"
    using response_books_ok by blast
  then show ?thesis
    using assms(1,2) skip size
    by (simp add: main_search_books_def search_books_def filters_run_def too_complex_def
        map_in_new_session Let_def) (simp add: new_session_def)
qed

text \<open>
  Claim C2. For a page size between 1 and 100, both formulas of the page count give
  \<open>ceil(tot / pg_size)\<close> for every \<open>tot >= 0\<close>. An answer of the listing handler
  reports as \<open>total\<close> the number of rows of the table, an answer of the search handler
  the number of rows that match, and each reports as \<open>total_pages\<close> the ceiling of
  its \<open>total\<close> over the page size, which is 0 when the total is 0. Both handlers do
  answer: the listing handler for every page whose offset fits the 64 bits, the search
  handler when in addition the request passes its constraints and its statements run,
  on a table whose rows the response schema accepts.
\<close>

theorem total_pages_is_ceiling:
  assumes "1 \<le> pg_size" and "pg_size \<le> 100"
  shows "(0 \<le> tot \<longrightarrow>
            get_books_total_pages tot pg_size = \<lceil>real_of_int tot / real_of_int pg_size\<rceil> \<and>
            search_books_total_pages tot pg_size = \<lceil>real_of_int tot / real_of_int pg_size\<rceil>) \<and>
         (\<forall>r. main_get_books sy tbl pg pg_size = Inr r \<longrightarrow>
            r_total r = int (length tbl) \<and>
            r_total_pages r = \<lceil>real_of_int (r_total r) / real_of_int pg_size\<rceil> \<and>
            (r_total r = 0 \<longrightarrow> r_total_pages r = 0)) \<and>
         (\<forall>r. page_size q = pg_size \<and> main_search_books plan sy tbl q = Inr r \<longrightarrow>
            r_total r = int (length (filter (matches q) tbl)) \<and>
            r_total_pages r = \<lceil>real_of_int (r_total r) / real_of_int pg_size\<rceil> \<and>
            (r_total r = 0 \<longrightarrow> r_total_pages r = 0)) \<and>
         (1 \<le> pg \<and> (pg - 1) * pg_size < 2 ^ 63 \<and> list_all (response_ok sy) tbl \<longrightarrow>
            (\<exists>r. main_get_books sy tbl pg pg_size = Inr r)) \<and>
         (page_size q = pg_size \<and> search_request_errors q = [] \<and> filters_run q \<and>
          (page q - 1) * pg_size < 2 ^ 63 \<and> list_all (response_ok sy) tbl \<longrightarrow>
            (\<exists>r. main_search_books plan sy tbl q = Inr r))"
proof -
  have pos: "0 < pg_size" using assms(1) by simp
  have listing: "get_books_total_pages n pg_size = \<lceil>real_of_int n / real_of_int pg_size\<rceil>" for n
    unfolding get_books_total_pages_def using pos by (rule div_round_up_ceiling)
  have search: "search_books_total_pages n pg_size = \<lceil>real_of_int n / real_of_int pg_size\<rceil>"
    if "0 \<le> n" for n
  proof (cases "n > 0")
    case True
    then show ?thesis
      using div_round_up_ceiling[OF pos, of n] by (simp add: search_books_total_pages_def)
  next
    case False
    with that have "n = 0" by simp
    then show ?thesis by (simp add: search_books_total_pages_def)
  qed
  have zero: "get_books_total_pages 0 pg_size = 0" "search_books_total_pages 0 pg_size = 0"
    using pos by (simp_all add: get_books_total_pages_def search_books_total_pages_def)
  have a: "0 \<le> tot \<longrightarrow>
      get_books_total_pages tot pg_size = \<lceil>real_of_int tot / real_of_int pg_size\<rceil> \<and>
      search_books_total_pages tot pg_size = \<lceil>real_of_int tot / real_of_int pg_size\<rceil>"
    using listing search by simp
  have b: "\<forall>r. main_get_books sy tbl pg pg_size = Inr r \<longrightarrow>
      r_total r = int (length tbl) \<and>
      r_total_pages r = \<lceil>real_of_int (r_total r) / real_of_int pg_size\<rceil> \<and>
      (r_total r = 0 \<longrightarrow> r_total_pages r = 0)"
    using main_get_books_answer[of sy tbl pg pg_size] listing zero by auto
  have c: "\<forall>r. page_size q = pg_size \<and> main_search_books plan sy tbl q = Inr r \<longrightarrow>
      r_total r = int (length (filter (matches q) tbl)) \<and>
      r_total_pages r = \<lceil>real_of_int (r_total r) / real_of_int pg_size\<rceil> \<and>
      (r_total r = 0 \<longrightarrow> r_total_pages r = 0)"
    using main_search_books_answer[of plan sy tbl q] search zero by auto
  have d: "1 \<le> pg \<and> (pg - 1) * pg_size < 2 ^ 63 \<and> list_all (response_ok sy) tbl \<longrightarrow>
      (\<exists>r. main_get_books sy tbl pg pg_size = Inr r)"
    using main_get_books_answers[of pg pg_size sy tbl] assms by blast
  have e: "page_size q = pg_size \<and> search_request_errors q = [] \<and> filters_run q \<and>
      (page q - 1) * pg_size < 2 ^ 63 \<and> list_all (response_ok sy) tbl \<longrightarrow>
      (\<exists>r. main_search_books plan sy tbl q = Inr r)"
    using main_search_books_answers[of q sy tbl plan] by blast
  show ?thesis using a b c d e by blast
qed

lemma response_ok_some_row: "response_ok sy (some_row i)"
  by (simp add: response_ok_def BookResponse_validate_def BookBase_str_def schema_year_field_def
      some_row_def core_strip_def py_strip_def strip_with_def core_isspace_def py_isspace_def)

lemma response_ok_some_rows: "list_all (response_ok sy) (some_rows n)"
  by (simp add: some_rows_def list_all_iff response_ok_some_row)

lemma matches_no_criteria: "matches no_criteria b"
  by (simp add: matches_def search_filters_def title_filters_def author_filters_def
      year_filters_def range_filters_def truthy_str_def truthy_int_def no_criteria_def)

lemma no_criteria_runs: "search_request_errors no_criteria = [] \<and> filters_run no_criteria"
  by (simp add: search_request_errors_def filters_run_def search_filters_def title_filters_def
      author_filters_def year_filters_def range_filters_def truthy_str_def truthy_int_def
      no_criteria_def)

theorem total_pages_is_ceiling_witness:
  "(1::int) \<le> 10 \<and> (10::int) \<le> 100 \<and>
   (\<exists>r. main_get_books 2026 (some_rows 25) 1 10 = Inr r \<and> r_total r = 25 \<and> r_total_pages r = 3) \<and>
   (\<exists>r. main_search_books full_scan 2026 (some_rows 25) no_criteria = Inr r \<and>
        r_total r = 25 \<and> r_total_pages r = 3) \<and>
   (\<exists>r. main_get_books 2026 [] 1 10 = Inr r \<and> r_total r = 0 \<and> r_total_pages r = 0) \<and>
   (\<exists>r. main_search_books full_scan 2026 [] no_criteria = Inr r \<and>
        r_total r = 0 \<and> r_total_pages r = 0) \<and>
   get_books_total_pages 25 10 = 3 \<and> search_books_total_pages 25 10 = 3"
proof -
  have ps: "page_size no_criteria = 10" "page no_criteria = 1" by (simp_all add: no_criteria_def)
  have all: "filter (matches no_criteria) tbl = tbl" for tbl
    by (simp add: matches_no_criteria)
  have len: "length (some_rows 25) = 25" by (simp add: some_rows_def)
  note t25 = total_pages_is_ceiling[of 10 25 2026 "some_rows 25" 1 no_criteria full_scan]
  note t0 = total_pages_is_ceiling[of 10 0 2026 "[]" 1 no_criteria full_scan]
  have 1: "\<exists>r. main_get_books 2026 (some_rows 25) 1 10 = Inr r \<and> r_total r = 25 \<and> r_total_pages r = 3"
    using t25 response_ok_some_rows[of 2026 25] len by auto
  have 2: "\<exists>r. main_search_books full_scan 2026 (some_rows 25) no_criteria = Inr r \<and>
        r_total r = 25 \<and> r_total_pages r = 3"
    using t25 response_ok_some_rows[of 2026 25] len no_criteria_runs ps all by auto
  have 3: "\<exists>r. main_get_books 2026 [] 1 10 = Inr r \<and> r_total r = 0 \<and> r_total_pages r = 0"
    using t0 by auto
  have 4: "\<exists>r. main_search_books full_scan 2026 [] no_criteria = Inr r \<and>
      r_total r = 0 \<and> r_total_pages r = 0"
    using t0 no_criteria_runs ps by auto
  have 5: "get_books_total_pages 25 10 = 3 \<and> search_books_total_pages 25 10 = 3"
    by (simp add: get_books_total_pages_def search_books_total_pages_def)
  show ?thesis using 1 2 3 4 5 by simp
qed

section \<open>Update\<close>

lemma get_book_new_session:
  "get_book (new_session tbl) i =
     (if int64 i then Inr (find (\<lambda>r. book_id r = i) tbl) else Inl OverflowError)"
  by (cases "find (\<lambda>r. book_id r = i) tbl")
    (simp_all add: get_book_def new_session_def in_session_def)

lemma get_book_SomeD:
  "get_book (new_session tbl) i = Inr (Some b) \<Longrightarrow>
     book_id b = i \<and> b \<in> set tbl \<and> int64 i \<and> find (\<lambda>r. book_id r = i) tbl = Some b"
  by (auto simp: get_book_new_session find_Some_iff split: if_splits)

lemma find_update_row:
  "find (\<lambda>r. book_id r = i) tbl = Some b \<Longrightarrow> book_id b' = i \<Longrightarrow>
     find (\<lambda>r. book_id r = i) (update_row b' tbl) = Some b'"
  by (induction tbl) (auto simp: update_row_def split: if_splits)

lemma find_update_row_other:
  "j \<noteq> book_id b' \<Longrightarrow>
     find (\<lambda>r. book_id r = j) (update_row b' tbl) = find (\<lambda>r. book_id r = j) tbl"
  by (induction tbl) (auto simp: update_row_def)

text \<open>One item at a time.\<close>

lemma setattr_title_item:
  "setattr_items cy db b (TitleItem v # items) =
     (case v of None \<Rightarrow> setattr_items cy db b items
      | Some t \<Rightarrow> (case validate_title t of Inl e \<Rightarrow> (Inl e, db)
                   | Inr t' \<Rightarrow> setattr_items cy (set_dirty (b\<lparr>title := t'\<rparr>) db) (b\<lparr>title := t'\<rparr>) items))"
  by (simp add: set_title_def split: option.splits sum.splits)

lemma setattr_author_item:
  "setattr_items cy db b (AuthorItem v # items) =
     (case v of None \<Rightarrow> setattr_items cy db b items
      | Some t \<Rightarrow> (case validate_author t of Inl e \<Rightarrow> (Inl e, db)
                   | Inr t' \<Rightarrow> setattr_items cy (set_dirty (b\<lparr>author := t'\<rparr>) db) (b\<lparr>author := t'\<rparr>) items))"
  by (simp add: set_author_def split: option.splits sum.splits)

lemma setattr_year_item:
  "setattr_items cy db b (YearItem v # items) =
     (case v of None \<Rightarrow> setattr_items cy db b items
      | Some t \<Rightarrow> (case validate_year cy (Some t) of Inl e \<Rightarrow> (Inl e, db)
                   | Inr t' \<Rightarrow> setattr_items cy (set_dirty (b\<lparr>year := t'\<rparr>) db) (b\<lparr>year := t'\<rparr>) items))"
  by (simp add: set_year_def split: option.splits sum.splits)

lemma rows_set_dirty: "rows (set_dirty b db) = rows db"
  by (simp add: set_dirty_def)

lemma setattr_items_rows:
  "setattr_items cy db b items = (res, db') \<Longrightarrow> rows db' = rows db"
proof (induction items arbitrary: db b)
  case Nil
  then show ?case by simp
next
  case (Cons x items)
  note IH = Cons.IH and prem = Cons.prems
  show ?case
  proof (cases x)
    case (TitleItem v)
    show ?thesis
    proof (cases v)
      case None
      with prem TitleItem show ?thesis using IH by simp
    next
      case (Some t)
      show ?thesis
      proof (cases "validate_title t")
        case (Inl e)
        with prem TitleItem Some show ?thesis by (simp add: set_title_def)
      next
        case (Inr t')
        with prem TitleItem Some
        have "setattr_items cy (set_dirty (b\<lparr>title := t'\<rparr>) db) (b\<lparr>title := t'\<rparr>) items = (res, db')"
          by (simp add: set_title_def)
        then have "rows db' = rows (set_dirty (b\<lparr>title := t'\<rparr>) db)" by (rule IH)
        then show ?thesis by (simp only: rows_set_dirty)
      qed
    qed
  next
    case (AuthorItem v)
    show ?thesis
    proof (cases v)
      case None
      with prem AuthorItem show ?thesis using IH by simp
    next
      case (Some t)
      show ?thesis
      proof (cases "validate_author t")
        case (Inl e)
        with prem AuthorItem Some show ?thesis by (simp add: set_author_def)
      next
        case (Inr t')
        with prem AuthorItem Some
        have "setattr_items cy (set_dirty (b\<lparr>author := t'\<rparr>) db) (b\<lparr>author := t'\<rparr>) items = (res, db')"
          by (simp add: set_author_def)
        then have "rows db' = rows (set_dirty (b\<lparr>author := t'\<rparr>) db)" by (rule IH)
        then show ?thesis by (simp only: rows_set_dirty)
      qed
    qed
  next
    case (YearItem v)
    show ?thesis
    proof (cases v)
      case None
      with prem YearItem show ?thesis using IH by simp
    next
      case (Some t)
      show ?thesis
      proof (cases "validate_year cy (Some t)")
        case (Inl e)
        with prem YearItem Some show ?thesis by (simp add: set_year_def)
      next
        case (Inr t')
        with prem YearItem Some
        have "setattr_items cy (set_dirty (b\<lparr>year := t'\<rparr>) db) (b\<lparr>year := t'\<rparr>) items = (res, db')"
          by (simp add: set_year_def)
        then have "rows db' = rows (set_dirty (b\<lparr>year := t'\<rparr>) db)" by (rule IH)
        then show ?thesis by (simp only: rows_set_dirty)
      qed
    qed
  qed
qed

lemma setattr_rejected:
  "rejected cy u \<Longrightarrow>
     \<exists>m db'. setattr_items cy db b (dict_exclude_unset u) = (Inl (ValueError m), db')"
  by (cases "bu_title u"; cases "bu_author u"; cases "bu_year u")
    (auto simp: rejected_def dict_exclude_unset_def setattr_title_item setattr_author_item
      setattr_year_item validate_title_def validate_author_def validate_year_def
      split: option.splits if_splits)

lemma setattr_accepted:
  "\<not> rejected cy u \<Longrightarrow>
   setattr_items cy (new_session tbl) b (dict_exclude_unset u) =
     (Inr (patched b u),
      if assigns u then \<lparr>rows = tbl, dirty = [patched b u]\<rparr> else new_session tbl)"
  by (cases "bu_title u"; cases "bu_author u"; cases "bu_year u")
    (auto simp: rejected_def dict_exclude_unset_def setattr_title_item setattr_author_item
      setattr_year_item validate_title_def validate_author_def validate_year_def
      patched_def assigns_def set_dirty_def new_session_def
      split: option.splits if_splits)

lemma patched_unassigned: "\<not> assigns u \<Longrightarrow> patched b u = b"
  by (cases "bu_title u"; cases "bu_author u"; cases "bu_year u")
    (auto simp: assigns_def patched_def split: option.splits)

lemma update_book_rejected:
  assumes "get_book (new_session tbl) i = Inr (Some b)" and "rejected cy u"
  shows "\<exists>m db. update_book cy (new_session tbl) i u = (Inl (ValueError m), db) \<and> rows db = tbl"
proof -
  from setattr_rejected[OF assms(2), of "new_session tbl" b]
  obtain m db where r: "setattr_items cy (new_session tbl) b (dict_exclude_unset u) =
      (Inl (ValueError m), db)" by blast
  then have "rows db = rows (new_session tbl)" by (rule setattr_items_rows)
  then have "rows db = tbl" by (simp add: new_session_def)
  moreover have "update_book cy (new_session tbl) i u = (Inl (ValueError m), db)"
    using assms(1) r by (simp add: update_book_def)
  ultimately show ?thesis by blast
qed

lemma update_book_accepted:
  assumes "get_book (new_session tbl) i = Inr (Some b)" and "\<not> rejected cy u"
  shows "update_book cy (new_session tbl) i u =
           (Inr (Some (patched b u)),
            new_session (if assigns u then update_row (patched b u) tbl else tbl))"
    and "get_book (new_session (if assigns u then update_row (patched b u) tbl else tbl)) i =
           Inr (Some (patched b u))"
    and "\<forall>j. j \<noteq> i \<longrightarrow>
           get_book (new_session (if assigns u then update_row (patched b u) tbl else tbl)) j =
           get_book (new_session tbl) j"
proof -
  show "update_book cy (new_session tbl) i u =
      (Inr (Some (patched b u)), new_session (if assigns u then update_row (patched b u) tbl else tbl))"
    using assms(1) setattr_accepted[OF assms(2), of tbl b]
    by (simp add: update_book_def commit_def flush_def new_session_def)
  have b: "book_id b = i" "int64 i" "find (\<lambda>r. book_id r = i) tbl = Some b"
    using get_book_SomeD[OF assms(1)] by simp_all
  have id: "book_id (patched b u) = i" using b(1) by (simp add: patched_def)
  show "get_book (new_session (if assigns u then update_row (patched b u) tbl else tbl)) i =
      Inr (Some (patched b u))"
    using b id find_update_row[OF b(3) id] patched_unassigned[of u b]
    by (simp add: get_book_new_session)
  show "\<forall>j. j \<noteq> i \<longrightarrow>
      get_book (new_session (if assigns u then update_row (patched b u) tbl else tbl)) j =
      get_book (new_session tbl) j"
    using id find_update_row_other[of _ "patched b u" tbl]
    by (simp add: get_book_new_session)
qed

text \<open>
  Claim C1, as amended. For an existing book, \<open>update_book\<close> leaves a field as it is
  when the patch does not have it or has it as null, and replaces it by the validated
  value when the patch has it with a value: the trimmed string for title and author, the
  number for year. The commit writes the row when the patch assigns something, and the
  session has nothing pending afterwards. The update fails, and writes nothing to the
  table, exactly when a validator rejects one of these values.
\<close>

theorem update_applies_non_null_fields:
  assumes "get_book (new_session tbl) i = Inr (Some b)"
  shows "(rejected cy u \<longrightarrow>
            (\<exists>m db. update_book cy (new_session tbl) i u = (Inl (ValueError m), db) \<and>
                    rows db = tbl)) \<and>
         (\<not> rejected cy u \<longrightarrow>
            (\<exists>b' db. update_book cy (new_session tbl) i u = (Inr (Some b'), db) \<and>
                  dirty db = [] \<and>
                  rows db = (if assigns u then update_row b' tbl else tbl) \<and>
                  get_book db i = Inr (Some b') \<and>
                  title b' = (case bu_title u of Present (Some t) \<Rightarrow> py_strip t | _ \<Rightarrow> title b) \<and>
                  author b' = (case bu_author u of Present (Some a) \<Rightarrow> py_strip a | _ \<Rightarrow> author b) \<and>
                  year b' = (case bu_year u of Present (Some y) \<Rightarrow> Some y | _ \<Rightarrow> year b)))"
proof (intro conjI impI)
  assume "rejected cy u"
  with assms show "\<exists>m db. update_book cy (new_session tbl) i u = (Inl (ValueError m), db) \<and>
      rows db = tbl"
    by (rule update_book_rejected)
next
  assume ok: "\<not> rejected cy u"
  define b' where "b' = patched b u"
  define db where "db = new_session (if assigns u then update_row b' tbl else tbl)"
  have "update_book cy (new_session tbl) i u = (Inr (Some b'), db)"
    and "get_book db i = Inr (Some b')"
    unfolding b'_def db_def using update_book_accepted[OF assms ok] by simp_all
  moreover have "dirty db = []" by (simp add: db_def new_session_def)
  moreover have "rows db = (if assigns u then update_row b' tbl else tbl)"
    by (simp add: db_def new_session_def)
  moreover have "title b' = (case bu_title u of Present (Some t) \<Rightarrow> py_strip t | _ \<Rightarrow> title b)"
    and "author b' = (case bu_author u of Present (Some a) \<Rightarrow> py_strip a | _ \<Rightarrow> author b)"
    and "year b' = (case bu_year u of Present (Some y) \<Rightarrow> Some y | _ \<Rightarrow> year b)"
    by (simp_all add: b'_def patched_def)
  ultimately show "\<exists>b' db. update_book cy (new_session tbl) i u = (Inr (Some b'), db) \<and>
      dirty db = [] \<and>
      rows db = (if assigns u then update_row b' tbl else tbl) \<and>
      get_book db i = Inr (Some b') \<and>
      title b' = (case bu_title u of Present (Some t) \<Rightarrow> py_strip t | _ \<Rightarrow> title b) \<and>
      author b' = (case bu_author u of Present (Some a) \<Rightarrow> py_strip a | _ \<Rightarrow> author b) \<and>
      year b' = (case bu_year u of Present (Some y) \<Rightarrow> Some y | _ \<Rightarrow> year b)"
    by blast
qed

lemma py_strip_X: "py_strip [88] = [88]"
  by (simp add: py_strip_def strip_with_def py_isspace_def)

lemma wp_found:
  "get_book (new_session [war_and_peace, anna_karenina]) 1 = Inr (Some war_and_peace)"
  by (simp add: get_book_new_session int64_def war_and_peace_def)

text \<open>
  The claim as written fails for a patch that gives the year as null: the update
  succeeds, writes nothing, and the book still has its year.
\<close>

theorem update_clear_year_counterexample:
  "update_book 2026 (new_session [war_and_peace, anna_karenina]) 1
       (no_change\<lparr>bu_year := Present None\<rparr>) =
     (Inr (Some war_and_peace), new_session [war_and_peace, anna_karenina]) \<and>
   year war_and_peace = Some 1869"
proof -
  have ok: "\<not> rejected 2026 (no_change\<lparr>bu_year := Present None\<rparr>)"
    by (simp add: rejected_def no_change_def)
  have na: "\<not> assigns (no_change\<lparr>bu_year := Present None\<rparr>)"
    by (simp add: assigns_def no_change_def)
  have "update_book 2026 (new_session [war_and_peace, anna_karenina]) 1
       (no_change\<lparr>bu_year := Present None\<rparr>) =
     (Inr (Some war_and_peace), new_session [war_and_peace, anna_karenina])"
    using update_book_accepted(1)[OF wp_found ok] na patched_unassigned[OF na, of war_and_peace]
    by simp
  moreover have "year war_and_peace = Some 1869" by (simp add: war_and_peace_def)
  ultimately show ?thesis by simp
qed

theorem update_applies_non_null_fields_witness:
  "get_book (new_session [war_and_peace, anna_karenina]) 1 = Inr (Some war_and_peace) \<and>
   \<not> rejected 2026 (no_change\<lparr>bu_author := Present (Some [88]), bu_year := Present None\<rparr>) \<and>
   (\<exists>b' db. update_book 2026 (new_session [war_and_peace, anna_karenina]) 1
            (no_change\<lparr>bu_author := Present (Some [88]), bu_year := Present None\<rparr>) =
          (Inr (Some b'), db) \<and> get_book db 1 = Inr (Some b') \<and>
         title b' = title war_and_peace \<and> author b' = [88] \<and> year b' = Some 1869) \<and>
   rejected 2026 (no_change\<lparr>bu_year := Present (Some 999)\<rparr>) \<and>
   (\<exists>m db. update_book 2026 (new_session [war_and_peace, anna_karenina]) 1
            (no_change\<lparr>bu_year := Present (Some 999)\<rparr>) = (Inl (ValueError m), db) \<and>
          rows db = [war_and_peace, anna_karenina])"
proof -
  have ok: "\<not> rejected 2026 (no_change\<lparr>bu_author := Present (Some [88]), bu_year := Present None\<rparr>)"
    by (simp add: rejected_def no_change_def validate_author_def py_strip_X)
  have bad: "rejected 2026 (no_change\<lparr>bu_year := Present (Some 999)\<rparr>)"
    by (simp add: rejected_def no_change_def validate_year_def)
  have y: "year war_and_peace = Some 1869" by (simp add: war_and_peace_def)
  from update_applies_non_null_fields[OF wp_found, of 2026
      "no_change\<lparr>bu_author := Present (Some [88]), bu_year := Present None\<rparr>"] ok
  have 1: "\<exists>b' db. update_book 2026 (new_session [war_and_peace, anna_karenina]) 1
            (no_change\<lparr>bu_author := Present (Some [88]), bu_year := Present None\<rparr>) =
          (Inr (Some b'), db) \<and> get_book db 1 = Inr (Some b') \<and>
         title b' = title war_and_peace \<and> author b' = [88] \<and> year b' = Some 1869"
    by (auto simp: no_change_def py_strip_X y)
  from update_applies_non_null_fields[OF wp_found, of 2026
      "no_change\<lparr>bu_year := Present (Some 999)\<rparr>"] bad
  have 2: "\<exists>m db. update_book 2026 (new_session [war_and_peace, anna_karenina]) 1
            (no_change\<lparr>bu_year := Present (Some 999)\<rparr>) = (Inl (ValueError m), db) \<and>
          rows db = [war_and_peace, anna_karenina]"
    by blast
  show ?thesis using wp_found ok bad 1 2 by blast
qed

text \<open>
  Inside one session a failed update is not without trace: the assignments made before
  the validator raised stay on the object, the session hands them out, and a later
  commit of the same session would write them. The table itself is untouched.
\<close>

lemma update_book_keeps_assignment:
  "update_book 2026 (new_session [war_and_peace, anna_karenina]) 1
       (no_change\<lparr>bu_title := Present (Some [88]), bu_year := Present (Some 999)\<rparr>) =
     (Inl (ValueError (YearRange 2028)),
      \<lparr>rows = [war_and_peace, anna_karenina], dirty = [war_and_peace\<lparr>title := [88]\<rparr>]\<rparr>) \<and>
   get_book \<lparr>rows = [war_and_peace, anna_karenina], dirty = [war_and_peace\<lparr>title := [88]\<rparr>]\<rparr> 1 =
     Inr (Some (war_and_peace\<lparr>title := [88]\<rparr>)) \<and>
   rows (commit \<lparr>rows = [war_and_peace, anna_karenina], dirty = [war_and_peace\<lparr>title := [88]\<rparr>]\<rparr>) =
     [war_and_peace\<lparr>title := [88]\<rparr>, anna_karenina]"
proof -
  have t: "validate_title [88] = Inr [88]" by (simp add: validate_title_def py_strip_X)
  have y: "validate_year 2026 (Some 999) = Inl (ValueError (YearRange 2028))"
    by (simp add: validate_year_def)
  have "setattr_items 2026 (new_session [war_and_peace, anna_karenina]) war_and_peace
      (dict_exclude_unset (no_change\<lparr>bu_title := Present (Some [88]), bu_year := Present (Some 999)\<rparr>)) =
      (Inl (ValueError (YearRange 2028)),
       \<lparr>rows = [war_and_peace, anna_karenina], dirty = [war_and_peace\<lparr>title := [88]\<rparr>]\<rparr>)"
    by (simp add: dict_exclude_unset_def no_change_def setattr_title_item setattr_year_item t y
        set_dirty_def new_session_def del: setattr_items.simps)
  then have 1: "update_book 2026 (new_session [war_and_peace, anna_karenina]) 1
       (no_change\<lparr>bu_title := Present (Some [88]), bu_year := Present (Some 999)\<rparr>) =
     (Inl (ValueError (YearRange 2028)),
      \<lparr>rows = [war_and_peace, anna_karenina], dirty = [war_and_peace\<lparr>title := [88]\<rparr>]\<rparr>)"
    using wp_found by (simp add: update_book_def)
  have ids: "book_id war_and_peace = 1" "book_id anna_karenina = 2"
    by (simp_all add: war_and_peace_def anna_karenina_def)
  have 2: "get_book \<lparr>rows = [war_and_peace, anna_karenina], dirty = [war_and_peace\<lparr>title := [88]\<rparr>]\<rparr> 1 =
     Inr (Some (war_and_peace\<lparr>title := [88]\<rparr>))"
    by (simp add: get_book_def int64_def in_session_def ids)
  have 3: "rows (commit \<lparr>rows = [war_and_peace, anna_karenina], dirty = [war_and_peace\<lparr>title := [88]\<rparr>]\<rparr>) =
     [war_and_peace\<lparr>title := [88]\<rparr>, anna_karenina]"
    by (simp add: commit_def flush_def update_row_def ids)
  show ?thesis using 1 2 3 by simp
qed

text \<open>
  The request path. A patch that breaks a constraint of \<open>BookUpdate\<close>, or an id below
  1, is answered 422 before the handler runs. Otherwise the handler runs
  \<open>update_book\<close>, answers 400 to the \<open>ValueError\<close> of a validator, and its session is
  closed without a commit.
\<close>

lemma BookUpdate_str_errors: "BookUpdate_str f v = Inl es \<Longrightarrow> es \<noteq> []"
  by (auto simp: BookUpdate_str_def Let_def split: field.splits option.splits if_splits)

lemma BookUpdate_year_errors: "BookUpdate_year sy v = Inl es \<Longrightarrow> es \<noteq> []"
  by (auto simp: BookUpdate_year_def schema_year_field_def
      split: field.splits option.splits if_splits sum.splits)

lemma BookUpdate_validate_error:
  assumes "BookUpdate_validate sy raw = Inl e"
  shows "\<exists>es. e = ValidationError es \<and> es \<noteq> []"
proof (cases "BookUpdate_str Title (bu_title raw)")
  case (Inl et)
  then have "et \<noteq> []" by (rule BookUpdate_str_errors)
  with assms Inl show ?thesis
    by (auto simp: BookUpdate_validate_def errors_of_def split: sum.splits)
next
  case t: (Inr t)
  show ?thesis
  proof (cases "BookUpdate_str Author (bu_author raw)")
    case (Inl ea)
    then have "ea \<noteq> []" by (rule BookUpdate_str_errors)
    with assms t Inl show ?thesis
      by (auto simp: BookUpdate_validate_def errors_of_def split: sum.splits)
  next
    case a: (Inr a)
    show ?thesis
    proof (cases "BookUpdate_year sy (bu_year raw)")
      case (Inl ey)
      then have "ey \<noteq> []" by (rule BookUpdate_year_errors)
      with assms t a Inl show ?thesis
        by (auto simp: BookUpdate_validate_def errors_of_def)
    next
      case (Inr y)
      with assms t a show ?thesis by (simp add: BookUpdate_validate_def)
    qed
  qed
qed

lemma update_request_errors_raised:
  assumes "i < 1 \<or> isl (BookUpdate_validate sy raw)"
  shows "update_request_errors sy i raw \<noteq> []"
proof (cases "i < 1")
  case True
  then show ?thesis by (simp add: update_request_errors_def)
next
  case False
  with assms obtain e where e: "BookUpdate_validate sy raw = Inl e"
    by (cases "BookUpdate_validate sy raw") auto
  then obtain es where "e = ValidationError es" and "es \<noteq> []"
    using BookUpdate_validate_error by blast
  with e show ?thesis by (simp add: update_request_errors_def)
qed

lemma main_update_book_unprocessable:
  "update_request_errors sy i raw \<noteq> [] \<Longrightarrow>
     main_update_book sy cy tbl i raw =
       (Inl (ValidationError (update_request_errors sy i raw)), tbl)"
  by (simp add: main_update_book_def)

lemma main_update_book_rejected:
  assumes "get_book (new_session tbl) i = Inr (Some b)" and "1 \<le> i"
    and "BookUpdate_validate sy raw = Inr u" and "rejected cy u"
  shows "(\<exists>m db. update_book cy (new_session tbl) i u = (Inl (ValueError m), db) \<and> rows db = tbl) \<and>
         main_update_book sy cy tbl i raw = (Inl (HTTPException 400), tbl)"
proof -
  from update_book_rejected[OF assms(1,4)] obtain m db
    where u: "update_book cy (new_session tbl) i u = (Inl (ValueError m), db)" and r: "rows db = tbl"
    by blast
  have "update_request_errors sy i raw = []"
    using assms(2,3) by (simp add: update_request_errors_def)
  then have "main_update_book sy cy tbl i raw = (Inl (HTTPException 400), tbl)"
    using assms(3) u r by (simp add: main_update_book_def)
  with u r show ?thesis by blast
qed

text \<open>
  Claim C3. For an existing book and a patch whose content fails validation, at the
  schema \<open>BookUpdate\<close> or at a validator of the model, the update request fails with
  a validation error and the table afterwards is the table before. A patch that fails
  at the schema is answered with the \<open>ValidationError\<close> that lists the offending
  fields (422). A patch that passes the schema and fails at a validator makes
  \<open>update_book\<close> raise the \<open>ValueError\<close> of the validator before its commit, with the
  rows untouched, and the handler answers 400. In both cases every row of the table,
  the row of the book among them, keeps all its values.
\<close>

theorem update_invalid_no_write:
  assumes "get_book (new_session tbl) i = Inr (Some b)"
    and "case BookUpdate_validate sy raw of Inl e \<Rightarrow> True | Inr u \<Rightarrow> rejected cy u"
  shows "(i < 1 \<or> isl (BookUpdate_validate sy raw) \<longrightarrow>
            update_request_errors sy i raw \<noteq> [] \<and>
            main_update_book sy cy tbl i raw =
              (Inl (ValidationError (update_request_errors sy i raw)), tbl)) \<and>
         (1 \<le> i \<longrightarrow>
            (\<forall>u. BookUpdate_validate sy raw = Inr u \<longrightarrow>
               (\<exists>m db. update_book cy (new_session tbl) i u = (Inl (ValueError m), db) \<and>
                       rows db = tbl) \<and>
               main_update_book sy cy tbl i raw = (Inl (HTTPException 400), tbl))) \<and>
         isl (fst (main_update_book sy cy tbl i raw)) \<and>
         snd (main_update_book sy cy tbl i raw) = tbl \<and>
         get_book (new_session (snd (main_update_book sy cy tbl i raw))) i = Inr (Some b)"
proof -
  have a: "update_request_errors sy i raw \<noteq> [] \<and>
      main_update_book sy cy tbl i raw =
        (Inl (ValidationError (update_request_errors sy i raw)), tbl)"
    if "i < 1 \<or> isl (BookUpdate_validate sy raw)"
    using update_request_errors_raised[OF that] main_update_book_unprocessable by blast
  have b: "(\<exists>m db. update_book cy (new_session tbl) i u = (Inl (ValueError m), db) \<and>
               rows db = tbl) \<and>
      main_update_book sy cy tbl i raw = (Inl (HTTPException 400), tbl)"
    if "1 \<le> i" and v: "BookUpdate_validate sy raw = Inr u" for u
  proof -
    from assms(2) v have "rejected cy u" by simp
    with assms(1) that show ?thesis by (rule main_update_book_rejected)
  qed
  have c: "isl (fst (main_update_book sy cy tbl i raw)) \<and>
      snd (main_update_book sy cy tbl i raw) = tbl"
  proof (cases "i < 1 \<or> isl (BookUpdate_validate sy raw)")
    case True
    then show ?thesis using a by simp
  next
    case False
    then obtain u where "1 \<le> i" and "BookUpdate_validate sy raw = Inr u"
      by (cases "BookUpdate_validate sy raw") auto
    then show ?thesis using b by simp
  qed
  then have d: "get_book (new_session (snd (main_update_book sy cy tbl i raw))) i = Inr (Some b)"
    using assms(1) by simp
  show ?thesis using a b c d by blast
qed

lemma core_strip_separator: "core_strip [28] = [28]" "py_strip [28] = []" "core_strip [88] = [88]"
  by (simp_all add: core_strip_def py_strip_def strip_with_def core_isspace_def py_isspace_def)

theorem update_invalid_no_write_witness:
  "get_book (new_session [war_and_peace, anna_karenina]) 1 = Inr (Some war_and_peace) \<and>
   BookUpdate_validate 2026
       (no_change\<lparr>bu_title := Present (Some [88]), bu_author := Present (Some [28])\<rparr>) =
     Inr (no_change\<lparr>bu_title := Present (Some [88]), bu_author := Present (Some [28])\<rparr>) \<and>
   rejected 2026 (no_change\<lparr>bu_title := Present (Some [88]), bu_author := Present (Some [28])\<rparr>) \<and>
   main_update_book 2026 2026 [war_and_peace, anna_karenina] 1
       (no_change\<lparr>bu_title := Present (Some [88]), bu_author := Present (Some [28])\<rparr>) =
     (Inl (HTTPException 400), [war_and_peace, anna_karenina]) \<and>
   isl (BookUpdate_validate 2026
       (no_change\<lparr>bu_title := Present (Some [88]), bu_year := Present (Some 999)\<rparr>)) \<and>
   main_update_book 2026 2026 [war_and_peace, anna_karenina] 1
       (no_change\<lparr>bu_title := Present (Some [88]), bu_year := Present (Some 999)\<rparr>) =
     (Inl (ValidationError [(Year, greater_than_equal)]), [war_and_peace, anna_karenina])"
proof -
  let ?p = "no_change\<lparr>bu_title := Present (Some [88]), bu_author := Present (Some [28])\<rparr>"
  let ?q = "no_change\<lparr>bu_title := Present (Some [88]), bu_year := Present (Some 999)\<rparr>"
  have v: "BookUpdate_validate 2026 ?p = Inr ?p"
    by (simp add: BookUpdate_validate_def BookUpdate_str_def BookUpdate_year_def no_change_def
        core_strip_separator)
  have r: "rejected 2026 ?p"
    by (simp add: rejected_def no_change_def validate_author_def core_strip_separator)
  have hyp: "case BookUpdate_validate 2026 ?p of Inl e \<Rightarrow> True | Inr u \<Rightarrow> rejected 2026 u"
    using v r by simp
  have a: "main_update_book 2026 2026 [war_and_peace, anna_karenina] 1 ?p =
      (Inl (HTTPException 400), [war_and_peace, anna_karenina])"
    using update_invalid_no_write[OF wp_found hyp] v by simp
  have vq: "BookUpdate_validate 2026 ?q = Inl (ValidationError [(Year, greater_than_equal)])"
    by (simp add: BookUpdate_validate_def BookUpdate_str_def BookUpdate_year_def
        schema_year_field_def no_change_def core_strip_separator errors_of_def)
  then have iq: "isl (BookUpdate_validate 2026 ?q)" by simp
  have hypq: "case BookUpdate_validate 2026 ?q of Inl e \<Rightarrow> True | Inr u \<Rightarrow> rejected 2026 u"
    using vq by simp
  have eq: "update_request_errors 2026 1 ?q = [(Year, greater_than_equal)]"
    using vq by (simp add: update_request_errors_def)
  have b: "main_update_book 2026 2026 [war_and_peace, anna_karenina] 1 ?q =
      (Inl (ValidationError [(Year, greater_than_equal)]), [war_and_peace, anna_karenina])"
    using update_invalid_no_write[OF wp_found hypq] iq eq by simp
  show ?thesis using wp_found v r a iq b by simp
qed

text \<open>
  The patch with the author alone: when the validator rejects the author, nothing was
  assigned before it, and the session is as new.
\<close>

lemma update_book_author_rejected:
  assumes "get_book (new_session tbl) i = Inr (Some b)" and "rejected cy (author_only v)"
  shows "\<exists>m. update_book cy (new_session tbl) i (author_only v) =
           (Inl (ValueError m), new_session tbl)"
proof -
  from assms(2) obtain a where a: "v = Some a" "isl (validate_author a)"
    by (cases v) (auto simp: rejected_def author_only_def)
  then obtain m where "validate_author a = Inl (ValueError m)"
    by (auto simp: validate_author_def split: if_splits)
  then have "setattr_items cy (new_session tbl) b (dict_exclude_unset (author_only v)) =
      (Inl (ValueError m), new_session tbl)"
    using a(1) by (simp add: dict_exclude_unset_def author_only_def setattr_author_item
        del: setattr_items.simps)
  then show ?thesis using assms(1) by (simp add: update_book_def)
qed

text \<open>
  Claim C7. For an existing book, an update with a patch that has only the author leaves
  the stored title, year and id as they were, stores the trimmed author when the
  validator accepts it, and leaves every other row alone. The session has nothing
  pending afterwards, so what it reads is what the table holds.
\<close>

theorem update_author_only:
  assumes "get_book (new_session tbl) i = Inr (Some b)"
  shows "\<exists>b'. get_book (snd (update_book cy (new_session tbl) i (author_only v))) i = Inr (Some b') \<and>
              title b' = title b \<and> year b' = year b \<and> book_id b' = book_id b \<and>
              (\<forall>a. v = Some a \<and> \<not> isl (validate_author a) \<longrightarrow> author b' = py_strip a) \<and>
              (\<forall>j. j \<noteq> i \<longrightarrow>
                 get_book (snd (update_book cy (new_session tbl) i (author_only v))) j =
                 get_book (new_session tbl) j) \<and>
              dirty (snd (update_book cy (new_session tbl) i (author_only v))) = []"
proof (cases "rejected cy (author_only v)")
  case True
  with assms obtain m where
    "update_book cy (new_session tbl) i (author_only v) = (Inl (ValueError m), new_session tbl)"
    using update_book_author_rejected by blast
  moreover from True have "\<forall>a. v = Some a \<longrightarrow> isl (validate_author a)"
    by (auto simp: rejected_def author_only_def)
  moreover have "dirty (new_session tbl) = []" by (simp add: new_session_def)
  ultimately show ?thesis using assms by auto
next
  case False
  define u where "u = author_only v"
  define b' where "b' = patched b u"
  define db where "db = new_session (if assigns u then update_row b' tbl else tbl)"
  have upd: "update_book cy (new_session tbl) i u = (Inr (Some b'), db)"
    and got: "get_book db i = Inr (Some b')"
    and others: "\<forall>j. j \<noteq> i \<longrightarrow> get_book db j = get_book (new_session tbl) j"
    unfolding b'_def db_def using update_book_accepted[OF assms False[folded u_def]] by simp_all
  have clean: "dirty db = []" by (simp add: db_def new_session_def)
  have "title b' = title b" and "year b' = year b" and "book_id b' = book_id b"
    and "\<forall>a. v = Some a \<and> \<not> isl (validate_author a) \<longrightarrow> author b' = py_strip a"
    by (simp_all add: b'_def patched_def u_def author_only_def)
  then show ?thesis using upd got others clean unfolding u_def by auto
qed

theorem update_author_only_witness:
  "get_book (new_session [war_and_peace, anna_karenina]) 1 = Inr (Some war_and_peace) \<and>
   (\<exists>b'. get_book (snd (update_book 2026 (new_session [war_and_peace, anna_karenina]) 1
                 (author_only (Some [88])))) 1 = Inr (Some b') \<and>
        title b' = title war_and_peace \<and> year b' = year war_and_peace \<and> author b' = [88])"
proof -
  have ok: "\<not> isl (validate_author [88])" by (simp add: validate_author_def py_strip_X)
  show ?thesis
    using update_author_only[OF wp_found, where v = "Some [88]" and cy = 2026] ok wp_found
    by (auto simp: py_strip_X)
qed

section \<open>Creation\<close>


























section \<open>Identifiers\<close>





lemma fields_new_session: "rows (new_session tbl) = tbl" "dirty (new_session tbl) = []"
  by (simp_all add: new_session_def)






















section \<open>Search\<close>

lemma search_filters_empty_title:
  "search_filters (q\<lparr>q_title := Some []\<rparr>) = search_filters (q\<lparr>q_title := None\<rparr>)"
  by (simp add: search_filters_def title_filters_def author_filters_def year_filters_def
      range_filters_def truthy_str_def)

lemma search_filters_empty_author:
  "search_filters (q\<lparr>q_author := Some []\<rparr>) = search_filters (q\<lparr>q_author := None\<rparr>)"
  by (simp add: search_filters_def title_filters_def author_filters_def year_filters_def
      range_filters_def truthy_str_def)

lemma matches_empty_title: "matches (q\<lparr>q_title := Some []\<rparr>) = matches (q\<lparr>q_title := None\<rparr>)"
  by (rule ext) (simp add: matches_def search_filters_empty_title)

lemma matches_empty_author: "matches (q\<lparr>q_author := Some []\<rparr>) = matches (q\<lparr>q_author := None\<rparr>)"
  by (rule ext) (simp add: matches_def search_filters_empty_author)

text \<open>
  Claim C10. A title or an author criterion given as the empty string is no criterion:
  in every session, and whatever the plan of the engine, the search returns what the
  search without the criterion returns, the same books and the same count or the same
  exception.
\<close>

theorem search_empty_string_is_omitted:
  "search_books plan db (q\<lparr>q_title := Some []\<rparr>) = search_books plan db (q\<lparr>q_title := None\<rparr>) \<and>
   search_books plan db (q\<lparr>q_author := Some []\<rparr>) = search_books plan db (q\<lparr>q_author := None\<rparr>)"
  by (simp add: search_books_def matches_empty_title matches_empty_author
      search_filters_empty_title search_filters_empty_author Let_def)

section \<open>Search criteria\<close>

lemma sql_lower_idem: "sql_lower (sql_lower c) = sql_lower c"
  by (simp add: sql_lower_def)

lemma sql_lower_wildcard: "sql_lower c = 37 \<longleftrightarrow> c = 37" "sql_lower c = 95 \<longleftrightarrow> c = 95"
  by (auto simp: sql_lower_def)

lemma sql_like_percent: "sql_like [37] s"
  by (induction s) simp_all

lemma sql_like_percent_Cons:
  "sql_like (37 # ps) s \<longleftrightarrow> (\<exists>k\<le>length s. sql_like ps (drop k s))"
proof (induction s)
  case Nil
  show ?case by (cases ps) simp_all
next
  case (Cons c cs)
  have "(\<exists>k\<le>length (c # cs). sql_like ps (drop k (c # cs))) \<longleftrightarrow>
        sql_like ps (c # cs) \<or> (\<exists>k\<le>length cs. sql_like ps (drop k cs))"
  proof
    assume "\<exists>k\<le>length (c # cs). sql_like ps (drop k (c # cs))"
    then obtain k where k: "k \<le> length (c # cs)" "sql_like ps (drop k (c # cs))" by blast
    show "sql_like ps (c # cs) \<or> (\<exists>k\<le>length cs. sql_like ps (drop k cs))"
    proof (cases k)
      case 0
      with k show ?thesis by simp
    next
      case (Suc j)
      with k have "j \<le> length cs" "sql_like ps (drop j cs)" by simp_all
      then show ?thesis by blast
    qed
  next
    assume "sql_like ps (c # cs) \<or> (\<exists>k\<le>length cs. sql_like ps (drop k cs))"
    then show "\<exists>k\<le>length (c # cs). sql_like ps (drop k (c # cs))"
    proof
      assume "sql_like ps (c # cs)"
      then have "0 \<le> length (c # cs) \<and> sql_like ps (drop 0 (c # cs))" by simp
      then show ?thesis by blast
    next
      assume "\<exists>k\<le>length cs. sql_like ps (drop k cs)"
      then obtain k where "k \<le> length cs" "sql_like ps (drop k cs)" by blast
      then have "Suc k \<le> length (c # cs) \<and> sql_like ps (drop (Suc k) (c # cs))" by simp
      then show ?thesis by blast
    qed
  qed
  with Cons show ?case by simp
qed

lemma sql_like_literal_prefix:
  assumes "37 \<notin> set l" and "95 \<notin> set l"
  shows "sql_like (l @ [37]) s \<longleftrightarrow> prefix (map sql_lower l) (map sql_lower s)"
  using assms
proof (induction l arbitrary: s)
  case Nil
  show ?case by (simp add: sql_like_percent)
next
  case (Cons p ps)
  then have p: "p \<noteq> 37" "p \<noteq> 95" and ps: "37 \<notin> set ps" "95 \<notin> set ps" by auto
  show ?case
  proof (cases s)
    case Nil
    with p show ?thesis by simp
  next
    case (Cons c cs)
    with p Cons.IH[OF ps, of cs] show ?thesis by simp
  qed
qed

lemma sublist_iff_prefix_drop: "sublist xs ys \<longleftrightarrow> (\<exists>k\<le>length ys. prefix xs (drop k ys))"
proof
  assume "sublist xs ys"
  then obtain ps ss where "ys = ps @ xs @ ss" by (auto simp: sublist_def)
  then have "length ps \<le> length ys \<and> prefix xs (drop (length ps) ys)" by simp
  then show "\<exists>k\<le>length ys. prefix xs (drop k ys)" by blast
next
  assume "\<exists>k\<le>length ys. prefix xs (drop k ys)"
  then obtain k ss where "drop k ys = xs @ ss" by (auto simp: prefix_def)
  then have "ys = take k ys @ xs @ ss" by (metis append_take_drop_id)
  then show "sublist xs ys" by (auto simp: sublist_def)
qed

lemma until_nul_unchanged: "0 \<notin> set s \<Longrightarrow> until_nul s = s"
  by (induction s) (auto simp: until_nul_def)

lemma sql_lower_nul: "sql_lower c = 0 \<longleftrightarrow> c = 0"
  by (auto simp: sql_lower_def)

lemma ilike_substring:
  assumes "37 \<notin> set t" and "95 \<notin> set t" and "0 \<notin> set t" and "0 \<notin> set s"
  shows "ilike s ([37] @ t @ [37]) \<longleftrightarrow> spec_contains t s"
proof -
  let ?p = "map sql_lower t" and ?x = "map sql_lower s"
  have "c \<in> set t \<Longrightarrow> sql_lower c \<noteq> 37 \<and> sql_lower c \<noteq> 95" for c
    using assms by (auto simp only: sql_lower_wildcard)
  then have lit: "37 \<notin> set ?p" "95 \<notin> set ?p"
    by force+
  have "c \<in> set t \<Longrightarrow> sql_lower c \<noteq> 0" for c using assms(3) by (metis sql_lower_nul)
  then have "0 \<notin> set (37 # ?p @ [37])" by force
  then have np: "until_nul (37 # ?p @ [37]) = 37 # ?p @ [37]" by (rule until_nul_unchanged)
  have "c \<in> set s \<Longrightarrow> sql_lower c \<noteq> 0" for c using assms(4) by (metis sql_lower_nul)
  then have "0 \<notin> set ?x" by force
  then have nx: "until_nul ?x = ?x" by (rule until_nul_unchanged)
  have comp: "sql_lower \<circ> sql_lower = sql_lower" by (rule ext) (simp add: sql_lower_idem)
  have l37: "sql_lower 37 = 37" by (simp add: sql_lower_def)
  have "ilike s ([37] @ t @ [37]) \<longleftrightarrow> sql_like (37 # (?p @ [37])) ?x"
    using np nx by (simp add: ilike_def l37)
  also have "\<dots> \<longleftrightarrow> (\<exists>k\<le>length ?x. sql_like (?p @ [37]) (drop k ?x))"
    by (rule sql_like_percent_Cons)
  also have "\<dots> \<longleftrightarrow> (\<exists>k\<le>length ?x. prefix ?p (drop k ?x))"
    using sql_like_literal_prefix[OF lit] by (simp add: comp drop_map)
  also have "\<dots> \<longleftrightarrow> sublist ?p ?x" by (rule sublist_iff_prefix_drop[symmetric])
  finally show ?thesis by (simp add: spec_contains_def)
qed

lemma title_criterion_substring:
  assumes "t \<noteq> []" and "37 \<notin> set t" and "95 \<notin> set t" and "0 \<notin> set t" and "0 \<notin> set (title b)"
  shows "matches (no_criteria\<lparr>q_title := Some t\<rparr>) b \<longleftrightarrow> spec_contains t (title b)"
  using assms(1) ilike_substring[OF assms(2-5)]
  by (simp add: matches_def search_filters_def title_filters_def author_filters_def
      year_filters_def range_filters_def truthy_str_def truthy_int_def no_criteria_def)

lemma author_criterion_substring:
  assumes "a \<noteq> []" and "37 \<notin> set a" and "95 \<notin> set a" and "0 \<notin> set a" and "0 \<notin> set (author b)"
  shows "matches (no_criteria\<lparr>q_author := Some a\<rparr>) b \<longleftrightarrow> spec_contains a (author b)"
  using assms(1) ilike_substring[OF assms(2-5)]
  by (simp add: matches_def search_filters_def title_filters_def author_filters_def
      year_filters_def range_filters_def truthy_str_def truthy_int_def no_criteria_def)

text \<open>A search on a new session whose statements run returns the page of the matching rows.\<close>

lemma search_books_runs:
  assumes "filters_run q" and "int64 (page_size q)" and "int64 ((page q - 1) * page_size q)"
  shows "search_books plan (new_session tbl) q =
     Inr (sql_limit (page_size q) (sql_offset ((page q - 1) * page_size q)
            (order_by_id (filter (matches q) tbl))),
          int (length (filter (matches q) tbl)))"
  using assms
  by (simp add: search_books_def filters_run_def too_complex_def map_in_new_session Let_def
      fields_new_session)

text \<open>The two books of the specification's example, on the first page of ten.\<close>

lemma example_ids: "book_id war_and_peace = 1" "book_id anna_karenina = 2"
  by (simp_all add: war_and_peace_def anna_karenina_def)

lemma first_page:
  "sql_limit 10 (sql_offset ((1 - 1) * 10) (order_by_id [war_and_peace, anna_karenina])) =
     [war_and_peace, anna_karenina]"
  "sql_limit 10 (sql_offset ((1 - 1) * 10) (order_by_id [war_and_peace])) = [war_and_peace]"
  "sql_limit 10 (sql_offset ((1 - 1) * 10) (order_by_id [anna_karenina])) = [anna_karenina]"
  by (simp_all add: sql_limit_def sql_offset_def order_by_id_def example_ids)

lemma search_author_tolstoy:
  "search_books plan (new_session [war_and_peace, anna_karenina])
     (no_criteria\<lparr>q_author := Some (str ''tolstoy'')\<rparr>) = Inr ([war_and_peace, anna_karenina], 2)"
proof -
  let ?q = "no_criteria\<lparr>q_author := Some (str ''tolstoy'')\<rparr>"
  have run: "filters_run ?q"
    by (simp add: filters_run_def search_filters_def title_filters_def author_filters_def
        year_filters_def range_filters_def truthy_str_def truthy_int_def no_criteria_def
        utf8_bytes_def utf8_len_def)
  have pg: "page ?q = 1" "page_size ?q = 10" by (simp_all add: no_criteria_def)
  have m: "filter (matches ?q) [war_and_peace, anna_karenina] = [war_and_peace, anna_karenina]"
    by (simp add: matches_def search_filters_def title_filters_def author_filters_def
        year_filters_def range_filters_def truthy_str_def truthy_int_def no_criteria_def
        ilike_def sql_lower_def until_nul_def war_and_peace_def anna_karenina_def)
  have i64: "int64 (page_size ?q)" "int64 ((page ?q - 1) * page_size ?q)"
    by (simp_all add: no_criteria_def int64_def)
  have "search_books plan (new_session [war_and_peace, anna_karenina]) ?q =
      Inr (sql_limit (page_size ?q) (sql_offset ((page ?q - 1) * page_size ?q)
             (order_by_id (filter (matches ?q) [war_and_peace, anna_karenina]))),
           int (length (filter (matches ?q) [war_and_peace, anna_karenina])))"
    by (rule search_books_runs[OF run i64])
  then show ?thesis unfolding m pg first_page by simp
qed

text \<open>
  Claim C5 says that a title or author criterion matches exactly the books whose stored
  text contains it, without regard to case. The lemmas above show this for a criterion
  and a text without percent sign, underscore and NUL. The criterion goes into the LIKE
  pattern as it is, so the percent sign and the underscore act as wildcards: the title
  criterion \<open>W_r\<close> finds ``War and Peace'', which does not contain it.
\<close>

theorem search_wildcard_matches_non_substring:
  "search_books plan (new_session [war_and_peace, anna_karenina])
     (no_criteria\<lparr>q_title := Some (str ''W_r'')\<rparr>) = Inr ([war_and_peace], 1) \<and>
   \<not> spec_contains (str ''W_r'') (title war_and_peace)"
proof -
  let ?q = "no_criteria\<lparr>q_title := Some (str ''W_r'')\<rparr>"
  have run: "filters_run ?q"
    by (simp add: filters_run_def search_filters_def title_filters_def author_filters_def
        year_filters_def range_filters_def truthy_str_def truthy_int_def no_criteria_def
        utf8_bytes_def utf8_len_def)
  have pg: "page ?q = 1" "page_size ?q = 10" by (simp_all add: no_criteria_def)
  have m: "filter (matches ?q) [war_and_peace, anna_karenina] = [war_and_peace]"
    by (simp add: matches_def search_filters_def title_filters_def author_filters_def
        year_filters_def range_filters_def truthy_str_def truthy_int_def no_criteria_def
        ilike_def sql_lower_def until_nul_def war_and_peace_def anna_karenina_def)
  have res: "search_books plan (new_session [war_and_peace, anna_karenina]) ?q =
      Inr ([war_and_peace], 1)"
  proof -
    have i64: "int64 (page_size ?q)" "int64 ((page ?q - 1) * page_size ?q)"
      by (simp_all add: no_criteria_def int64_def)
    have "search_books plan (new_session [war_and_peace, anna_karenina]) ?q =
        Inr (sql_limit (page_size ?q) (sql_offset ((page ?q - 1) * page_size ?q)
               (order_by_id (filter (matches ?q) [war_and_peace, anna_karenina]))),
             int (length (filter (matches ?q) [war_and_peace, anna_karenina])))"
      by (rule search_books_runs[OF run i64])
    then show ?thesis unfolding m pg first_page by simp
  qed
  have "\<not> spec_contains (str ''W_r'') (title war_and_peace)"
    by (simp add: spec_contains_def war_and_peace_def sql_lower_def sublist_Cons_right prefix_Cons)
  with res show ?thesis by simp
qed

text \<open>
  The filters on the year, for criteria other than 0: the exact year, the lower bound
  and the upper bound each constrain the year of the book, and a book without year
  passes none of them.
\<close>

lemma year_criteria_compose:
  assumes "q_year q \<noteq> Some 0" and "year_from q \<noteq> Some 0" and "year_to q \<noteq> Some 0"
  shows "list_all (\<lambda>c. clause_holds c b) (year_filters q @ range_filters q) \<longleftrightarrow>
     (case q_year q of None \<Rightarrow> True | Some y \<Rightarrow> year b = Some y) \<and>
     (case year_from q of None \<Rightarrow> True | Some lo \<Rightarrow> (\<exists>n. year b = Some n \<and> lo \<le> n)) \<and>
     (case year_to q of None \<Rightarrow> True | Some hi \<Rightarrow> (\<exists>n. year b = Some n \<and> n \<le> hi))"
  using assms
  by (auto simp: year_filters_def range_filters_def truthy_int_def sql_eq_def sql_ge_def
      sql_le_def sql_between_def split: option.splits)

text \<open>
  Claim C6 says that a search with \<open>year_to\<close> alone returns the books with
  \<open>year <= year_to\<close>. The test \<open>if search_query.year_to:\<close> is false for the
  number 0, so the query \<open>year_to = 0\<close>, which the schema accepts, adds no filter and
  returns both books, of 1869 and 1877.
\<close>

theorem search_year_to_zero_unfiltered:
  "SearchQuery_ok (no_criteria\<lparr>year_to := Some 0\<rparr>) \<and>
   search_books plan (new_session [war_and_peace, anna_karenina]) (no_criteria\<lparr>year_to := Some 0\<rparr>) =
     Inr ([war_and_peace, anna_karenina], 2) \<and>
   \<not> sql_le (year war_and_peace) 0 \<and> \<not> sql_le (year anna_karenina) 0"
proof -
  let ?q = "no_criteria\<lparr>year_to := Some 0\<rparr>"
  have run: "filters_run ?q"
    by (simp add: filters_run_def search_filters_def title_filters_def author_filters_def
        year_filters_def range_filters_def truthy_str_def truthy_int_def no_criteria_def)
  have pg: "page ?q = 1" "page_size ?q = 10" by (simp_all add: no_criteria_def)
  have m: "filter (matches ?q) [war_and_peace, anna_karenina] = [war_and_peace, anna_karenina]"
    by (simp add: matches_def search_filters_def title_filters_def author_filters_def
        year_filters_def range_filters_def truthy_str_def truthy_int_def no_criteria_def)
  have res: "search_books plan (new_session [war_and_peace, anna_karenina]) ?q =
      Inr ([war_and_peace, anna_karenina], 2)"
  proof -
    have i64: "int64 (page_size ?q)" "int64 ((page ?q - 1) * page_size ?q)"
      by (simp_all add: no_criteria_def int64_def)
    have "search_books plan (new_session [war_and_peace, anna_karenina]) ?q =
        Inr (sql_limit (page_size ?q) (sql_offset ((page ?q - 1) * page_size ?q)
               (order_by_id (filter (matches ?q) [war_and_peace, anna_karenina]))),
             int (length (filter (matches ?q) [war_and_peace, anna_karenina])))"
      by (rule search_books_runs[OF run i64])
    then show ?thesis unfolding m pg first_page by simp
  qed
  have ok: "SearchQuery_ok ?q" by (simp add: SearchQuery_ok_def no_criteria_def)
  have "\<not> sql_le (year war_and_peace) 0" "\<not> sql_le (year anna_karenina) 0"
    by (simp_all add: sql_le_def war_and_peace_def anna_karenina_def)
  with res ok show ?thesis by simp
qed

lemma search_year_range_example:
  "search_books plan (new_session [war_and_peace, anna_karenina])
     (no_criteria\<lparr>year_from := Some 1870, year_to := Some 1900\<rparr>) = Inr ([anna_karenina], 1)"
proof -
  let ?q = "no_criteria\<lparr>year_from := Some 1870, year_to := Some 1900\<rparr>"
  have run: "filters_run ?q"
    by (simp add: filters_run_def search_filters_def title_filters_def author_filters_def
        year_filters_def range_filters_def truthy_str_def truthy_int_def no_criteria_def
        int64_def)
  have pg: "page ?q = 1" "page_size ?q = 10" by (simp_all add: no_criteria_def)
  have m: "filter (matches ?q) [war_and_peace, anna_karenina] = [anna_karenina]"
    by (simp add: matches_def search_filters_def title_filters_def author_filters_def
        year_filters_def range_filters_def truthy_str_def truthy_int_def no_criteria_def
        sql_between_def war_and_peace_def anna_karenina_def)
  have i64: "int64 (page_size ?q)" "int64 ((page ?q - 1) * page_size ?q)"
    by (simp_all add: no_criteria_def int64_def)
  have "search_books plan (new_session [war_and_peace, anna_karenina]) ?q =
      Inr (sql_limit (page_size ?q) (sql_offset ((page ?q - 1) * page_size ?q)
             (order_by_id (filter (matches ?q) [war_and_peace, anna_karenina]))),
           int (length (filter (matches ?q) [war_and_peace, anna_karenina])))"
    by (rule search_books_runs[OF run i64])
  then show ?thesis unfolding m pg first_page by simp
qed

text \<open>
  The driver and the engine on the search path: a year criterion beyond 64 bits raises
  at once; a pattern over the limit raises when the engine evaluates it on a row, and
  never on an empty table.
\<close>

lemma search_books_year_overflow:
  "search_books plan db (no_criteria\<lparr>q_year := Some (2 ^ 63)\<rparr>) = Inl OverflowError"
  by (simp add: search_books_def search_filters_def title_filters_def author_filters_def
      year_filters_def range_filters_def truthy_str_def truthy_int_def no_criteria_def
      int64_def Let_def)

lemma search_books_long_pattern:
  "search_books full_scan (new_session [war_and_peace])
     (no_criteria\<lparr>q_title := Some (replicate 50000 97)\<rparr>) = Inl OperationalError"
  "search_books plan (new_session [])
     (no_criteria\<lparr>q_title := Some (replicate 50000 97)\<rparr>) = Inr ([], 0)"
proof -
  have len: "utf8_bytes (37 # replicate 50000 97 @ [37]) = 50002"
    by (simp add: utf8_bytes_def utf8_len_def sum_list_replicate)
  have ne: "replicate 50000 (97::nat) \<noteq> []" by simp
  show "search_books full_scan (new_session [war_and_peace])
     (no_criteria\<lparr>q_title := Some (replicate 50000 97)\<rparr>) = Inl OperationalError"
    using ne
    by (simp add: search_books_def search_filters_def title_filters_def author_filters_def
        year_filters_def range_filters_def truthy_str_def truthy_int_def no_criteria_def
        too_complex_def full_scan_def len fields_new_session Let_def)
  show "search_books plan (new_session [])
     (no_criteria\<lparr>q_title := Some (replicate 50000 97)\<rparr>) = Inr ([], 0)"
    using ne
    by (simp add: search_books_def search_filters_def title_filters_def author_filters_def
        year_filters_def range_filters_def truthy_str_def truthy_int_def no_criteria_def
        too_complex_def fields_new_session Let_def int64_def sql_limit_def sql_offset_def
        order_by_id_def)
qed

end
